theory Spec2Isabelle
  imports Main "HOL-Library.AList"
begin

section \<open>Values of the host language\<close>

text \<open>
  The library is TypeScript. Its numbers are modelled as \<open>int\<close>: frame indices, pixel sizes,
  timestamps and grid sizes are integers in every call the library documents; fractions, NaN
  and the infinities are outside the model, and so are array lengths beyond the engine's
  limit. An optional parameter or field is an \<open>option\<close>; \<open>undefined\<close> is \<open>None\<close>.
  The truthiness tests the source relies on (\<open>if (name)\<close>, \<open>a || b\<close>) are written out:
  the empty string and the number 0 are falsy.
\<close>

text \<open>An animation name is \<open>string | number\<close> (types.ts, \<open>SpriteAnimation.name\<close>);
  \<open>===\<close> on names is equality of this datatype, so the number 0 and the string "0" differ.\<close>

datatype aname = NameStr string | NameNum int

fun truthy_name :: "aname \<Rightarrow> bool" where
  "truthy_name (NameStr s) = (s \<noteq> [])"
| "truthy_name (NameNum n) = (n \<noteq> 0)"

definition truthy_str :: "string option \<Rightarrow> bool" where
  "truthy_str x = (case x of None \<Rightarrow> False | Some s \<Rightarrow> s \<noteq> [])"

definition truthy_num :: "int option \<Rightarrow> bool" where
  "truthy_num x = (case x of None \<Rightarrow> False | Some n \<Rightarrow> n \<noteq> 0)"

text \<open>\<open>String(n)\<close> and template interpolation of an integer: decimal digits, with a minus sign
  for a negative number.\<close>

definition digit_char :: "nat \<Rightarrow> char" where
  "digit_char d = ''0123456789'' ! d"

function String_nat :: "nat \<Rightarrow> string" where
  "String_nat n = (if n < 10 then [digit_char n] else String_nat (n div 10) @ [digit_char (n mod 10)])"
  by pat_completeness auto
termination
  by (relation "measure (\<lambda>n. n)") auto

definition String_int :: "int \<Rightarrow> string" where
  "String_int i = (if i < 0 then CHR ''-'' # String_nat (nat (- i)) else String_nat (nat i))"

fun String_name :: "aname \<Rightarrow> string" where
  "String_name (NameStr s) = s"
| "String_name (NameNum n) = String_int n"

text \<open>\<open>Array.prototype.find\<close> returns the first element that satisfies the predicate. The
  element is an object shared with the array, which the caller then mutates; the model returns
  its position, so that the mutation is an update of the array at that position.\<close>

fun find_idx :: "('a \<Rightarrow> bool) \<Rightarrow> 'a list \<Rightarrow> nat option" where
  "find_idx P [] = None"
| "find_idx P (x # xs) = (if P x then Some 0 else map_option Suc (find_idx P xs))"

section \<open>Data model (types.ts)\<close>

record SpriteSheet =
  sheet_spritesheet :: string
  sheet_columns :: int
  sheet_rows :: int
  sheet_cells :: "string list"
  sheet_width :: int
  sheet_height :: int

record SpriteAnimation =
  anim_name :: aname
  anim_start :: int
  anim_end :: int
  anim_frames :: "int list"
  anim_speed :: int
  anim_stopped :: bool
  anim_loop :: bool
  anim_spritesheet :: "string option"

record PlayedAnimation =
  pa_name :: string
  pa_timestamp :: int
  pa_length :: int
  pa_looped :: bool

record SpriteMemory =
  playedAnimations :: "PlayedAnimation list"

text \<open>The display element: the properties \<open>createSpriteElement\<close> sets that identify it, the
  background the engine writes, and how many times \<open>remove()\<close> was called on it.\<close>

record Element =
  elem_id :: string
  elem_className :: string
  elem_width :: int
  elem_height :: int
  elem_background :: "string option"
  elem_removed :: nat

text \<open>A JavaScript \<open>Map\<close> keeps its entries in insertion order with unique keys. It is an
  association list: \<open>get\<close> is \<open>map_of\<close>, \<open>set\<close> is \<open>AList.update\<close> (in place when the key
  exists, appended otherwise), \<open>delete\<close> is \<open>AList.delete\<close>. A \<open>Set\<close> of callbacks is a list
  without duplicates in insertion order. A callback is known by its identity only.\<close>

type_synonym callback = nat

record Sprite =
  name :: string
  width :: int
  height :: int
  element :: Element
  spritesheets :: "(string \<times> SpriteSheet) list"
  animations :: "SpriteAnimation list"
  activeIntervals :: "(string \<times> nat) list"
  animationCallbacks :: "(string \<times> callback list) list"
  memory :: SpriteMemory
  currentFrame :: "int option"
  currentSpritesheetId :: "string option"
  lastPlayedAnimation :: "string option"
  helpFlag :: bool

section \<open>The host: timers, the clock, callbacks\<close>

text \<open>
  \<open>window.setInterval\<close> registers a closure with the host and returns a handle. The closure
  of \<open>play\<close> captures the animation object (its position in \<open>sprite.animations\<close>), the name
  it was called with, the resolved spritesheet object, the effective loop flag and the mutable
  cursor \<open>frameIndex\<close>. The host's table of live timers is part of the state; a handle is a
  positive number, the next one being \<open>Suc (timerSeq w)\<close>.

  \<open>Date.now()\<close> reads the field \<open>now\<close>. Console output (\<open>log\<close>, \<open>logError\<close>) is not part of
  the state.

  Calling a callback appends its identity to \<open>invoked\<close>. A callback is the client's code, and
  the model has the call and nothing else: the source calls it inside \<open>try\<close>/\<open>catch\<close>, so that
  an exception it throws does not leave \<open>stop\<close>, and a callback that calls the library or
  changes the sprite continues from the state in which it is called. The state \<open>stop\<close> returns
  here is therefore the one that callbacks which leave the sprite alone would leave; the
  statements that are to hold whatever the callbacks do speak of the calls, or of the state
  in which the callbacks are called.
\<close>

record Timer =
  t_animation :: nat
  t_animationName :: aname
  t_spritesheet :: SpriteSheet
  t_shouldLoop :: bool
  t_frameIndex :: nat

record World =
  sprite :: Sprite
  timers :: "(nat \<times> Timer) list"
  timerSeq :: nat
  now :: int
  invoked :: "callback list"

text \<open>The exceptions that escape the library are of one kind, \<open>RangeError\<close>: the engine
  raises it when unbounded recursion exhausts the call stack, and when an array is constructed
  with a length it cannot have.\<close>

datatype error = RangeError

section \<open>stop (sprite.ts, lines 501-542)\<close>

text \<open>The branch of \<open>stop\<close> for a truthy name.\<close>

definition clear_timer :: "World \<Rightarrow> string \<Rightarrow> World" where
  "clear_timer w nameStr =
     (case map_of (activeIntervals (sprite w)) nameStr of
        None \<Rightarrow> w
      | Some interval \<Rightarrow>
          if interval \<noteq> 0
          then w\<lparr>timers := AList.delete interval (timers w),
                 sprite := (sprite w)\<lparr>activeIntervals :=
                              AList.delete nameStr (activeIntervals (sprite w))\<rparr>\<rparr>
          else w)"

definition backfill :: "PlayedAnimation list \<Rightarrow> string \<Rightarrow> int \<Rightarrow> PlayedAnimation list" where
  "backfill pas nameStr t =
     (case find_idx (\<lambda>pa. pa_name pa = nameStr \<and> pa_length pa = 0) pas of
        None \<Rightarrow> pas
      | Some j \<Rightarrow> pas[j := (pas ! j)\<lparr>pa_length := t - pa_timestamp (pas ! j)\<rparr>])"

definition run_callbacks :: "World \<Rightarrow> string \<Rightarrow> World" where
  "run_callbacks w nameStr =
     (case map_of (animationCallbacks (sprite w)) nameStr of
        None \<Rightarrow> w
      | Some callbacks \<Rightarrow> w\<lparr>invoked := invoked w @ callbacks\<rparr>)"

definition mark_stopped :: "World \<Rightarrow> aname \<Rightarrow> World" where
  "mark_stopped w nm =
     (case find_idx (\<lambda>anim. anim_name anim = nm) (animations (sprite w)) of
        None \<Rightarrow> w
      | Some i \<Rightarrow>
          run_callbacks
            (w\<lparr>sprite := (sprite w)
                 \<lparr>animations := (animations (sprite w))
                      [i := (animations (sprite w) ! i)\<lparr>anim_stopped := True\<rparr>],
                  memory := (memory (sprite w))
                      \<lparr>playedAnimations :=
                          backfill (playedAnimations (memory (sprite w))) (String_name nm) (now w)\<rparr>\<rparr>\<rparr>)
            (String_name nm))"

definition stop_named :: "World \<Rightarrow> aname \<Rightarrow> World" where
  "stop_named w nm = mark_stopped (clear_timer w (String_name nm)) nm"

text \<open>\<open>Map.prototype.forEach\<close> over \<open>activeIntervals\<close>: the entries are visited in insertion
  order, and an entry deleted before its turn is skipped. The callback may fail.\<close>

fun forEach_interval ::
  "(World \<Rightarrow> string \<Rightarrow> error + World) \<Rightarrow> string list \<Rightarrow> World \<Rightarrow> error + World" where
  "forEach_interval f [] w = Inr w"
| "forEach_interval f (k # ks) w =
     (if map_of (activeIntervals (sprite w)) k = None then forEach_interval f ks w
      else (case f w k of Inl e \<Rightarrow> Inl e | Inr w' \<Rightarrow> forEach_interval f ks w'))"

text \<open>
  \<open>stop(sprite, name?)\<close>. With a falsy name (absent, the empty string, the number 0) it calls
  itself on every key of \<open>activeIntervals\<close>. The keys are strings, so a key other than the empty
  string takes the first branch; the empty key takes the second branch again, is never deleted
  there, and the recursion does not end. The first argument is the depth of call stack left:
  the engine raises \<open>RangeError\<close> when it is used up.
\<close>

primrec stop :: "nat \<Rightarrow> World \<Rightarrow> aname option \<Rightarrow> error + World" where
  "stop 0 w nm = Inl RangeError"
| "stop (Suc d) w nm =
     (case (case nm of None \<Rightarrow> None | Some n \<Rightarrow> if truthy_name n then Some n else None) of
        Some n \<Rightarrow> Inr (stop_named w n)
      | None \<Rightarrow>
          forEach_interval (\<lambda>w' animName. stop d w' (Some (NameStr animName)))
            (map fst (activeIntervals (sprite w))) w)"

section \<open>Spritesheets (sprite.ts, lines 168-287 and 731-778)\<close>

definition quote_char :: char where
  "quote_char = CHR 0x27"

text \<open>The template \<open>url('${sheet.spritesheet}') ${x}px ${y}px\<close> of \<open>createSpriteCells\<close>.\<close>

definition cell_css :: "SpriteSheet \<Rightarrow> int \<Rightarrow> int \<Rightarrow> string" where
  "cell_css sheet row col =
     (let x = - (col * sheet_width sheet); y = - (row * sheet_height sheet)
      in ''url('' @ [quote_char] @ sheet_spritesheet sheet @ [quote_char] @ '') ''
           @ String_int x @ ''px '' @ String_int y @ ''px'')"

text \<open>The inner and the outer \<open>for\<close> loop of \<open>createSpriteCells\<close>; \<open>acc\<close> is the array
  \<open>cells\<close> that both push onto.\<close>

function cols_loop :: "SpriteSheet \<Rightarrow> int \<Rightarrow> int \<Rightarrow> string list \<Rightarrow> string list" where
  "cols_loop sheet row col acc =
     (if col < sheet_columns sheet
      then cols_loop sheet row (col + 1) (acc @ [cell_css sheet row col])
      else acc)"
  by pat_completeness auto
termination
  by (relation "measure (\<lambda>(sheet, row, col, acc). nat (sheet_columns sheet - col))") auto

function rows_loop :: "SpriteSheet \<Rightarrow> int \<Rightarrow> string list \<Rightarrow> string list" where
  "rows_loop sheet row acc =
     (if row < sheet_rows sheet
      then rows_loop sheet (row + 1) (cols_loop sheet row 0 acc)
      else acc)"
  by pat_completeness auto
termination
  by (relation "measure (\<lambda>(sheet, row, acc). nat (sheet_rows sheet - row))") auto

definition createSpriteCells :: "SpriteSheet \<Rightarrow> string list" where
  "createSpriteCells sheet = rows_loop sheet 0 []"

definition validateFrameIndex :: "int \<Rightarrow> SpriteSheet \<Rightarrow> bool" where
  "validateFrameIndex index sheet =
     (let maxIndex = int (length (sheet_cells sheet)) - 1 in 0 \<le> index \<and> index \<le> maxIndex)"

text \<open>\<open>sprite.spritesheets.keys().next().value\<close> and \<open>values().next().value\<close>.\<close>

definition first_key :: "('k \<times> 'v) list \<Rightarrow> 'k option" where
  "first_key m = (case m of [] \<Rightarrow> None | (k, v) # rest \<Rightarrow> Some k)"

definition first_value :: "('k \<times> 'v) list \<Rightarrow> 'v option" where
  "first_value m = (case m of [] \<Rightarrow> None | (k, v) # rest \<Rightarrow> Some v)"

text \<open>\<open>a || b\<close> on optional strings: the left operand when it is truthy, else the right one.\<close>

definition str_or :: "string option \<Rightarrow> string option \<Rightarrow> string option" where
  "str_or a b = (if truthy_str a then a else b)"

definition getSheet :: "Sprite \<Rightarrow> string option \<Rightarrow> SpriteSheet option" where
  "getSheet s ident =
     (let targetId = str_or (str_or ident (currentSpritesheetId s)) (first_key (spritesheets s))
      in if truthy_str targetId then map_of (spritesheets s) (the targetId) else None)"

definition getSpriteSheetForAnimation :: "Sprite \<Rightarrow> SpriteAnimation \<Rightarrow> SpriteSheet option" where
  "getSpriteSheetForAnimation s animation =
     (if truthy_str (anim_spritesheet animation)
      then map_of (spritesheets s) (the (anim_spritesheet animation))
      else if truthy_str (currentSpritesheetId s)
              \<and> map_of (spritesheets s) (the (currentSpritesheetId s)) \<noteq> None
      then map_of (spritesheets s) (the (currentSpritesheetId s))
      else first_value (spritesheets s))"

record SheetOptions =
  so_columns :: "int option"
  so_rows :: "int option"
  so_cellWidth :: "int option"
  so_cellHeight :: "int option"
  so_cellSize :: "int option"
  so_id :: "string option"

text \<open>\<open>cellSize || cellWidth || sprite.width\<close>.\<close>

definition final_cell :: "int option \<Rightarrow> int option \<Rightarrow> int \<Rightarrow> int" where
  "final_cell cellSize cellDim spriteDim =
     (if truthy_num cellSize then the cellSize
      else if truthy_num cellDim then the cellDim
      else spriteDim)"

text \<open>\<open>columns || Math.floor(dimension / cell)\<close>. On integers with a non-zero divisor,
  \<open>Math.floor\<close> of the quotient is \<open>div\<close>. With a zero divisor JavaScript yields an infinity
  or NaN, which is no integer: the result is \<open>None\<close> then.\<close>

definition grid_count :: "int option \<Rightarrow> int \<Rightarrow> int \<Rightarrow> int option" where
  "grid_count explicit dimension cell =
     (if truthy_num explicit then explicit
      else if cell = 0 then None
      else Some (dimension div cell))"

text \<open>
  \<open>addSheet\<close> after its only suspension point. \<open>dimensions\<close> is what the image loader
  delivered: \<open>None\<close> when it rejected (the source catches that and returns null). \<open>generated\<close>
  is the identifier the source makes up (time stamp and random digits) when the caller gives
  none. The outer \<open>option\<close> of the result is \<open>None\<close> exactly when the grid is not made of
  integers (a zero cell size, which \<open>createSprite\<close> excludes for the sprite's own size).
\<close>

definition addSheet ::
  "Sprite \<Rightarrow> string \<Rightarrow> SheetOptions \<Rightarrow> string \<Rightarrow> (int \<times> int) option
     \<Rightarrow> (string option \<times> Sprite) option" where
  "addSheet s url opts generated dimensions =
     (let ident = (case so_id opts of None \<Rightarrow> generated | Some i \<Rightarrow> i)
      in case dimensions of
           None \<Rightarrow> Some (None, s)
         | Some (imageWidth, imageHeight) \<Rightarrow>
             (let finalCellWidth = final_cell (so_cellSize opts) (so_cellWidth opts) (width s);
                  finalCellHeight = final_cell (so_cellSize opts) (so_cellHeight opts) (height s)
              in case (grid_count (so_columns opts) imageWidth finalCellWidth,
                       grid_count (so_rows opts) imageHeight finalCellHeight) of
                   (Some calculatedColumns, Some calculatedRows) \<Rightarrow>
                     if calculatedColumns \<le> 0 \<or> calculatedRows \<le> 0 then Some (None, s)
                     else
                       (let sheet0 = \<lparr>sheet_spritesheet = url, sheet_columns = calculatedColumns,
                                       sheet_rows = calculatedRows, sheet_cells = [],
                                       sheet_width = finalCellWidth,
                                       sheet_height = finalCellHeight\<rparr>;
                            sheet = sheet0\<lparr>sheet_cells := createSpriteCells sheet0\<rparr>;
                            s1 = s\<lparr>spritesheets := AList.update ident sheet (spritesheets s)\<rparr>
                        in Some (Some ident,
                                 if truthy_str (currentSpritesheetId s1) then s1
                                 else s1\<lparr>currentSpritesheetId := Some ident\<rparr>))
                 | _ \<Rightarrow> None))"

definition removeSheet :: "Sprite \<Rightarrow> string \<Rightarrow> bool \<times> Sprite" where
  "removeSheet s ident =
     (if map_of (spritesheets s) ident = None then (False, s)
      else
        (let s1 = s\<lparr>spritesheets := AList.delete ident (spritesheets s)\<rparr>
         in if currentSpritesheetId s1 = Some ident
            then (True, s1\<lparr>currentSpritesheetId :=
                            str_or (first_key (spritesheets s1)) None\<rparr>)
            else (True, s1)))"

section \<open>createSprite (sprite.ts, lines 24-107)\<close>

record SpriteOptions =
  opt_name :: string
  opt_width :: int
  opt_height :: int
  opt_help :: "bool option"

definition createSpriteElement :: "string \<Rightarrow> int \<Rightarrow> int \<Rightarrow> Element" where
  "createSpriteElement nm w h =
     \<lparr>elem_id = nm, elem_className = ''sprite'', elem_width = w, elem_height = h,
      elem_background = None, elem_removed = 0\<rparr>"

text \<open>\<open>createElement_ok\<close> says whether \<open>document.createElement\<close> returned; when it throws,
  the source catches the exception and returns null.\<close>

definition createSprite :: "SpriteOptions \<Rightarrow> bool \<Rightarrow> Sprite option" where
  "createSprite options createElement_ok =
     (if opt_name options = [] then None
      else if opt_width options = 0 \<or> opt_width options \<le> 0 then None
      else if opt_height options = 0 \<or> opt_height options \<le> 0 then None
      else if createElement_ok
      then Some \<lparr>name = opt_name options, width = opt_width options, height = opt_height options,
                 element = createSpriteElement (opt_name options) (opt_width options)
                             (opt_height options),
                 spritesheets = [], animations = [], activeIntervals = [],
                 animationCallbacks = [], memory = \<lparr>playedAnimations = []\<rparr>,
                 currentFrame = None, currentSpritesheetId = None, lastPlayedAnimation = None,
                 helpFlag = (case opt_help options of None \<Rightarrow> False | Some b \<Rightarrow> b)\<rparr>
      else None)"

text \<open>The host state around a sprite at some time: no timer, no callback called yet.\<close>

definition new_world :: "Sprite \<Rightarrow> int \<Rightarrow> World" where
  "new_world s t = \<lparr>sprite = s, timers = [], timerSeq = 0, now = t, invoked = []\<rparr>"

section \<open>addAnimation (sprite.ts, lines 315-400)\<close>

record AnimationOptions =
  ao_name :: aname
  ao_start :: "int option"
  ao_end :: "int option"
  ao_frames :: "int list option"
  ao_speed :: "int option"
  ao_loop :: "bool option"
  ao_spritesheet :: "string option"

text \<open>\<open>Array.from({ length: end - start + 1 }, (_, i) => start + i)\<close>. \<open>Array.from\<close> takes the
  length with \<open>ToLength\<close>, so that a length that is not positive gives the empty array, and
  constructs the array with \<open>new Array(len)\<close>, which throws \<open>RangeError\<close> for a length above
  \<open>2^32 - 1\<close>. \<open>addAnimation\<close> does not catch it.\<close>

definition frame_range :: "int \<Rightarrow> int \<Rightarrow> error + int list" where
  "frame_range start e =
     (let len = e - start + 1
      in if len > 4294967295 then Inl RangeError
         else Inr (map (\<lambda>i. start + int i) [0 ..< nat len]))"

text \<open>The frames of the new animation: the copy of \<open>frames\<close> when given (an array, even an
  empty one, is truthy), else the range up to \<open>end\<close> when that is given, else none.\<close>

definition animation_frames :: "AnimationOptions \<Rightarrow> error + int list option" where
  "animation_frames a =
     (case ao_frames a of
        Some frames \<Rightarrow> Inr (Some frames)
      | None \<Rightarrow>
          (case ao_end a of
             Some e \<Rightarrow>
               (case frame_range (case ao_start a of None \<Rightarrow> 0 | Some st \<Rightarrow> st) e of
                  Inl err \<Rightarrow> Inl err
                | Inr built \<Rightarrow> Inr (Some built))
           | None \<Rightarrow> Inr None))"

definition target_sheet :: "Sprite \<Rightarrow> string option \<Rightarrow> SpriteSheet option" where
  "target_sheet s sid =
     (if truthy_str sid then map_of (spritesheets s) (the sid) else getSheet s None)"

text \<open>The object literal \<open>newAnimation\<close> of \<open>addAnimation\<close>, for the frames it has built.\<close>

definition new_animation :: "AnimationOptions \<Rightarrow> int list \<Rightarrow> SpriteAnimation" where
  "new_animation a animationFrames =
     (let start = (case ao_start a of None \<Rightarrow> 0 | Some st \<Rightarrow> st);
          speed = (case ao_speed a of None \<Rightarrow> 100 | Some sp \<Rightarrow> sp);
          loop = (case ao_loop a of None \<Rightarrow> False | Some l \<Rightarrow> l)
      in \<lparr>anim_name = ao_name a, anim_start = start,
          anim_end = (if truthy_num (ao_end a) then the (ao_end a)
                      else start + int (length animationFrames) - 1),
          anim_frames = animationFrames, anim_speed = speed,
          anim_stopped = True, anim_loop = loop,
          anim_spritesheet = (if truthy_str (ao_spritesheet a)
                              then ao_spritesheet a else None)\<rparr>)"

definition addAnimation :: "Sprite \<Rightarrow> AnimationOptions \<Rightarrow> error + (bool \<times> Sprite)" where
  "addAnimation s a =
     (if find_idx (\<lambda>anim. anim_name anim = ao_name a) (animations s) \<noteq> None then Inr (False, s)
      else case animation_frames a of
        Inl err \<Rightarrow> Inl err
      | Inr None \<Rightarrow> Inr (False, s)
      | Inr (Some animationFrames) \<Rightarrow>
          (case target_sheet s (ao_spritesheet a) of
             None \<Rightarrow> Inr (False, s)
           | Some targetSheet \<Rightarrow>
               (let maxFrame = int (length (sheet_cells targetSheet)) - 1;
                    invalidFrames = filter (\<lambda>frame. frame < 0 \<or> frame > maxFrame) animationFrames
                in if length invalidFrames > 0 then Inr (False, s)
                   else Inr (True, s\<lparr>animations :=
                                       animations s @ [new_animation a animationFrames]\<rparr>))))"

section \<open>play and its timer (sprite.ts, lines 417-486)\<close>

text \<open>What \<open>play\<close> does after \<open>stop(sprite, animationName)\<close> returned: \<open>i\<close> is the position
  of the animation object found at the start, \<open>spritesheet\<close> the sheet resolved for it.\<close>

definition start_playback ::
  "World \<Rightarrow> nat \<Rightarrow> aname \<Rightarrow> SpriteSheet \<Rightarrow> bool option \<Rightarrow> World" where
  "start_playback w i animationName spritesheet loop =
     (let s = sprite w;
          animation = animations s ! i;
          shouldLoop = (case loop of None \<Rightarrow> anim_loop animation | Some l \<Rightarrow> l);
          intervalId = Suc (timerSeq w)
      in w\<lparr>sprite := s
             \<lparr>animations := (animations s)[i := animation\<lparr>anim_stopped := False\<rparr>],
              lastPlayedAnimation := Some (String_name animationName),
              memory := (memory s)
                \<lparr>playedAnimations := playedAnimations (memory s) @
                    [\<lparr>pa_name = String_name animationName, pa_timestamp = now w,
                      pa_length = 0, pa_looped = shouldLoop\<rparr>]\<rparr>,
              activeIntervals :=
                AList.update (String_name animationName) intervalId (activeIntervals s)\<rparr>,
            timers := AList.update intervalId
                        \<lparr>t_animation = i, t_animationName = animationName,
                         t_spritesheet = spritesheet, t_shouldLoop = shouldLoop,
                         t_frameIndex = 0\<rparr> (timers w),
            timerSeq := intervalId\<rparr>)"

definition play :: "nat \<Rightarrow> World \<Rightarrow> aname \<Rightarrow> bool option \<Rightarrow> error + (bool \<times> World)" where
  "play d w animationName loop =
     (case find_idx (\<lambda>anim. anim_name anim = animationName) (animations (sprite w)) of
        None \<Rightarrow> Inr (False, w)
      | Some i \<Rightarrow>
          (case getSpriteSheetForAnimation (sprite w) (animations (sprite w) ! i) of
             None \<Rightarrow> Inr (False, w)
           | Some spritesheet \<Rightarrow>
               (case stop d w (Some animationName) of
                  Inl e \<Rightarrow> Inl e
                | Inr w1 \<Rightarrow> Inr (True, start_playback w1 i animationName spritesheet loop))))"


definition set_cursor :: "World \<Rightarrow> nat \<Rightarrow> nat \<Rightarrow> World" where
  "set_cursor w h k =
     (case map_of (timers w) h of
        None \<Rightarrow> w
      | Some t \<Rightarrow> w\<lparr>timers := AList.update h (t\<lparr>t_frameIndex := k\<rparr>) (timers w)\<rparr>)"

definition show_frame :: "World \<Rightarrow> SpriteSheet \<Rightarrow> int \<Rightarrow> World" where
  "show_frame w spritesheet currentFrameNumber =
     w\<lparr>sprite := (sprite w)
         \<lparr>element := (element (sprite w))
             \<lparr>elem_background := Some (sheet_cells spritesheet ! nat currentFrameNumber)\<rparr>,
          currentFrame := Some currentFrameNumber\<rparr>\<rparr>"


section \<open>setFrame, onEnd, destroy (sprite.ts, lines 559-596 and 679-724)\<close>

definition setFrame :: "Sprite \<Rightarrow> int \<Rightarrow> string option \<Rightarrow> bool \<times> Sprite" where
  "setFrame s index spritesheetId =
     (let targetSpritesheetId = str_or spritesheetId (currentSpritesheetId s)
      in if truthy_str targetSpritesheetId
         then
           (case map_of (spritesheets s) (the targetSpritesheetId) of
              None \<Rightarrow> (False, s)
            | Some spritesheet \<Rightarrow>
                if validateFrameIndex index spritesheet
                then (True, s\<lparr>element := (element s)
                                  \<lparr>elem_background := Some (sheet_cells spritesheet ! nat index)\<rparr>,
                               currentFrame := Some index,
                               currentSpritesheetId := targetSpritesheetId\<rparr>)
                else (False, s))
         else (False, s))"

text \<open>\<open>Set.prototype.add\<close> and \<open>delete\<close> on a set of callbacks.\<close>

definition set_add :: "callback \<Rightarrow> callback list \<Rightarrow> callback list" where
  "set_add cb cbs = (if cb \<in> set cbs then cbs else cbs @ [cb])"

text \<open>\<open>onEnd\<close> returns null (\<open>False\<close> here) or the closure \<open>unregister\<close> of the same name and
  callback.\<close>

definition onEnd :: "Sprite \<Rightarrow> aname \<Rightarrow> callback \<Rightarrow> bool \<times> Sprite" where
  "onEnd s nm cb =
     (if find_idx (\<lambda>anim. anim_name anim = nm) (animations s) = None then (False, s)
      else
        (let nameStr = String_name nm;
             cbs = (case map_of (animationCallbacks s) nameStr of None \<Rightarrow> [] | Some c \<Rightarrow> c)
         in (True, s\<lparr>animationCallbacks :=
                        AList.update nameStr (set_add cb cbs) (animationCallbacks s)\<rparr>)))"

definition unregister :: "Sprite \<Rightarrow> aname \<Rightarrow> callback \<Rightarrow> Sprite" where
  "unregister s nm cb =
     (let nameStr = String_name nm
      in case map_of (animationCallbacks s) nameStr of
           None \<Rightarrow> s
         | Some cbs \<Rightarrow>
             (let cbs' = removeAll cb cbs
              in if length cbs' = 0
                 then s\<lparr>animationCallbacks := AList.delete nameStr (animationCallbacks s)\<rparr>
                 else s\<lparr>animationCallbacks := AList.update nameStr cbs' (animationCallbacks s)\<rparr>))"

text \<open>\<open>destroy\<close>: \<open>clearInterval\<close> on every handle of \<open>activeIntervals\<close>, then the four
  \<open>clear()\<close>/truncation statements and \<open>element.remove()\<close>, in the order of the source.\<close>

definition destroy :: "World \<Rightarrow> World" where
  "destroy w =
     w\<lparr>timers := fold AList.delete (map snd (activeIntervals (sprite w))) (timers w),
       sprite := (sprite w)
         \<lparr>activeIntervals := [],
          animationCallbacks := [],
          spritesheets := [],
          memory := (memory (sprite w))\<lparr>playedAnimations := []\<rparr>,
          element := (element (sprite w))
             \<lparr>elem_removed := Suc (elem_removed (element (sprite w)))\<rparr>\<rparr>\<rparr>"

section \<open>getMemory (sprite.ts, lines 654-659)\<close>

text \<open>
  Whether the result of \<open>getMemory\<close> shares structure with the sprite is a question about
  references, so here the log is held in a store: an array is an address bound to the list of
  the addresses of its elements, and a history record is an address bound to its fields.
  \<open>[...sprite.memory.playedAnimations]\<close> allocates a new array with the same elements; the
  spread of \<open>sprite.memory\<close> copies its only field, which the new array then replaces.
\<close>

record Store =
  arrays :: "(nat \<times> nat list) list"
  records :: "(nat \<times> PlayedAnimation) list"

definition fresh_array :: "Store \<Rightarrow> nat" where
  "fresh_array st = Suc (fold max (map fst (arrays st)) 0)"

text \<open>\<open>getMemory\<close>, given the address of \<open>sprite.memory.playedAnimations\<close>: the address of the
  array in the returned memory object, and the store after the allocation.\<close>

definition getMemory :: "Store \<Rightarrow> nat \<Rightarrow> nat \<times> Store" where
  "getMemory st log =
     (let copy = fresh_array st;
          elems = (case map_of (arrays st) log of None \<Rightarrow> [] | Some es \<Rightarrow> es)
      in (copy, st\<lparr>arrays := arrays st @ [(copy, elems)]\<rparr>))"

text \<open>Any mutation of an array as such (push, pop, splice, sort, reverse) replaces the list
  of element addresses bound to its address; assigning to a field of an element replaces the
  record bound to the element's address.\<close>

definition write_array :: "Store \<Rightarrow> nat \<Rightarrow> nat list \<Rightarrow> Store" where
  "write_array st a es = st\<lparr>arrays := AList.update a es (arrays st)\<rparr>"

definition read_array :: "Store \<Rightarrow> nat \<Rightarrow> PlayedAnimation option list" where
  "read_array st a =
     (case map_of (arrays st) a of
        None \<Rightarrow> []
      | Some es \<Rightarrow> map (\<lambda>e. map_of (records st) e) es)"

section \<open>Notions the statements use\<close>

text \<open>The end-callbacks registered for a name, the loop flag a call of \<open>play\<close> uses (the
  per-call override when given, else the animation's own), the closure the host holds for a
  handle, and the lengths recorded in the history.\<close>

definition callbacks_of :: "World \<Rightarrow> aname \<Rightarrow> callback list" where
  "callbacks_of w nm =
     (case map_of (animationCallbacks (sprite w)) (String_name nm) of
        None \<Rightarrow> [] | Some cbs \<Rightarrow> cbs)"



definition history_lengths :: "World \<Rightarrow> int list" where
  "history_lengths w = map pa_length (playedAnimations (memory (sprite w)))"

text \<open>The host never hands out 0 as a handle, so that \<open>if (interval)\<close> holds for every
  handle stored by \<open>play\<close>.\<close>

definition handles_ok :: "World \<Rightarrow> bool" where
  "handles_ok w = list_all (\<lambda>entry. snd entry \<noteq> 0) (activeIntervals (sprite w))"

text \<open>The step of the stop-all loop for one key, and the result of \<open>stop\<close> when it returns:
  the depth of the stack decides only whether it returns.\<close>

definition stop_key :: "string \<Rightarrow> World \<Rightarrow> World" where
  "stop_key k w =
     (if map_of (activeIntervals (sprite w)) k = None then w else stop_named w (NameStr k))"

definition stop_effect :: "World \<Rightarrow> aname option \<Rightarrow> World" where
  "stop_effect w nm =
     (case nm of
        None \<Rightarrow> fold stop_key (map fst (activeIntervals (sprite w))) w
      | Some n \<Rightarrow>
          if truthy_name n then stop_named w n
          else fold stop_key (map fst (activeIntervals (sprite w))) w)"

text \<open>What \<open>stop\<close> itself never changes: everything but the timers, \<open>activeIntervals\<close>, the
  \<open>stopped\<close> flags, the lengths in the history and the trace of callbacks.\<close>

definition stop_frame :: "World \<Rightarrow> World \<Rightarrow> bool" where
  "stop_frame w w' =
     (timerSeq w' = timerSeq w \<and> now w' = now w
      \<and> spritesheets (sprite w') = spritesheets (sprite w)
      \<and> animationCallbacks (sprite w') = animationCallbacks (sprite w)
      \<and> currentFrame (sprite w') = currentFrame (sprite w)
      \<and> currentSpritesheetId (sprite w') = currentSpritesheetId (sprite w)
      \<and> lastPlayedAnimation (sprite w') = lastPlayedAnimation (sprite w)
      \<and> element (sprite w') = element (sprite w)
      \<and> map (anim_stopped_update (\<lambda>b. True)) (animations (sprite w'))
          = map (anim_stopped_update (\<lambda>b. True)) (animations (sprite w))
      \<and> length (playedAnimations (memory (sprite w')))
          = length (playedAnimations (memory (sprite w))))"

text \<open>The sheet a successful \<open>addSheet\<close> has inserted, and the cell descriptor for a pixel
  offset.\<close>

definition added_sheet :: "(string option \<times> Sprite) option \<Rightarrow> SpriteSheet option" where
  "added_sheet r =
     (case r of
        Some (Some ident, s) \<Rightarrow> map_of (spritesheets s) ident
      | _ \<Rightarrow> None)"

definition css_at :: "string \<Rightarrow> int \<Rightarrow> int \<Rightarrow> string" where
  "css_at url x y =
     ''url('' @ [quote_char] @ url @ [quote_char] @ '') '' @ String_int x @ ''px ''
       @ String_int y @ ''px''"

text \<open>The frames that lie outside a sheet, the number of frames an \<open>end\<close> bound asks for,
  and the four reasons for which \<open>addAnimation\<close> returns false.\<close>

definition out_of_range :: "SpriteSheet \<Rightarrow> int list \<Rightarrow> bool" where
  "out_of_range sheet fs =
     (\<exists>f \<in> set fs. f < 0 \<or> f > int (length (sheet_cells sheet)) - 1)"

definition range_length :: "AnimationOptions \<Rightarrow> int" where
  "range_length a =
     (case ao_end a of
        None \<Rightarrow> 0
      | Some e \<Rightarrow> e - (case ao_start a of None \<Rightarrow> 0 | Some st \<Rightarrow> st) + 1)"

definition add_fails :: "Sprite \<Rightarrow> AnimationOptions \<Rightarrow> bool" where
  "add_fails s a =
     (find_idx (\<lambda>anim. anim_name anim = ao_name a) (animations s) \<noteq> None
      \<or> (ao_frames a = None \<and> ao_end a = None)
      \<or> target_sheet s (ao_spritesheet a) = None
      \<or> (\<exists>sheet fs. target_sheet s (ao_spritesheet a) = Some sheet
            \<and> animation_frames a = Inr (Some fs) \<and> out_of_range sheet fs))"

text \<open>Assigning to a field of a history record through any array that holds it.\<close>

definition write_record :: "Store \<Rightarrow> nat \<Rightarrow> PlayedAnimation \<Rightarrow> Store" where
  "write_record st e pa = st\<lparr>records := AList.update e pa (records st)\<rparr>"

section \<open>The sheet of a new animation, in the words of the specification\<close>

text \<open>Claim C6 resolves the sheet of a new animation as "explicit id, else the sprite's
  current sheet". This is that rule; \<open>target_sheet\<close> is the one of the source.\<close>

definition claimed_sheet :: "Sprite \<Rightarrow> string option \<Rightarrow> SpriteSheet option" where
  "claimed_sheet s sid =
     (case sid of
        Some ident \<Rightarrow> map_of (spritesheets s) ident
      | None \<Rightarrow>
          (case currentSpritesheetId s of
             None \<Rightarrow> None
           | Some current \<Rightarrow> map_of (spritesheets s) current))"

section \<open>A sprite built through the interface\<close>

text \<open>The concrete states the closed theorems below evaluate: each is the result of the calls
  a client makes, starting from \<open>createSprite\<close>. First the options of those calls.\<close>

definition sheet_options :: "string \<Rightarrow> SheetOptions" where
  "sheet_options ident =
     \<lparr>so_columns = None, so_rows = None, so_cellWidth = None, so_cellHeight = None,
      so_cellSize = None, so_id = Some ident\<rparr>"

definition zero_columns :: SheetOptions where
  "zero_columns = (sheet_options ''main'')\<lparr>so_columns := Some 0\<rparr>"

definition range_options :: "aname \<Rightarrow> int \<Rightarrow> AnimationOptions" where
  "range_options nm e =
     \<lparr>ao_name = nm, ao_start = None, ao_end = Some e, ao_frames = None, ao_speed = None,
      ao_loop = None, ao_spritesheet = None\<rparr>"

definition frames_options :: "aname \<Rightarrow> int list \<Rightarrow> string option \<Rightarrow> AnimationOptions" where
  "frames_options nm fs sid =
     \<lparr>ao_name = nm, ao_start = None, ao_end = None, ao_frames = Some fs, ao_speed = None,
      ao_loop = None, ao_spritesheet = sid\<rparr>"

text \<open>The sprite a call of \<open>addAnimation\<close> leaves, and the world a call of \<open>play\<close>, or one
  firing of a timer, leaves (the given one when the call throws).\<close>

definition added :: "Sprite \<Rightarrow> AnimationOptions \<Rightarrow> Sprite" where
  "added s a = (case addAnimation s a of Inl e \<Rightarrow> s | Inr (ok, s') \<Rightarrow> s')"

definition played :: "World \<Rightarrow> aname \<Rightarrow> World" where
  "played w nm = (case play 2 w nm None of Inl e \<Rightarrow> w | Inr (ok, w') \<Rightarrow> w')"


text \<open>The sprite \<open>hero\<close> of 32 by 32; then with one sheet \<open>main\<close>, a 64 by 32 image: two
  cells of 32 by 32; then with the animation \<open>walk\<close> over the frames 0 and 1 and the
  end-callback 7.\<close>

definition demo_created :: Sprite where
  "demo_created =
     the (createSprite \<lparr>opt_name = ''hero'', opt_width = 32, opt_height = 32,
                        opt_help = None\<rparr> True)"

definition demo_sheeted :: Sprite where
  "demo_sheeted =
     snd (the (addSheet demo_created ''/hero.png'' (sheet_options ''main'') ''generated''
                 (Some (64, 32))))"

definition demo_sprite :: Sprite where
  "demo_sprite =
     snd (onEnd (added demo_sheeted (range_options (NameStr ''walk'') 1)) (NameStr ''walk'') 7)"

text \<open>\<open>walk\<close> registered and never played, at time 100.\<close>

definition demo_idle :: World where
  "demo_idle = new_world demo_sprite 100"

text \<open>\<open>walk\<close> playing since time 100, observed at time 150 with an empty trace of callbacks;
  and the same one tick later, when the cursor is on the last frame.\<close>

definition demo_playing :: World where
  "demo_playing = (played demo_idle (NameStr ''walk''))\<lparr>now := 150, invoked := []\<rparr>"



text \<open>\<open>walk\<close> registered with no end-callback and played twice within the millisecond 100,
  observed at time 150.\<close>

definition demo_restarted :: World where
  "demo_restarted =
     (played (played (new_world (added demo_sheeted (range_options (NameStr ''walk'') 1)) 100)
                (NameStr ''walk''))
        (NameStr ''walk''))\<lparr>now := 150\<rparr>"

text \<open>An animation whose name is the empty string: \<open>addAnimation\<close> accepts it. Here it was
  registered on the sheet \<open>main\<close> and played once.\<close>

definition demo_unnamed_playing :: World where
  "demo_unnamed_playing =
     played (new_world (added demo_sheeted (range_options (NameStr []) 1)) 100) (NameStr [])"

text \<open>The animation with the empty name and \<open>walk\<close>, played in this order and both
  playing.\<close>

definition demo_unnamed_and_walk :: World where
  "demo_unnamed_and_walk =
     played (played (new_world (added (added demo_sheeted (range_options (NameStr []) 1))
                                  (range_options (NameStr ''walk'') 1)) 100)
               (NameStr []))
       (NameStr ''walk'')"

text \<open>Two animations, the number 0 and \<open>walk\<close>, played in this order and both playing.\<close>

definition demo_two_playing :: World where
  "demo_two_playing =
     played (played (new_world (added demo_sprite (range_options (NameNum 0) 1)) 100)
               (NameNum 0))
       (NameStr ''walk'')"



text \<open>A store with the sprite's log at address 1 holding two history records.\<close>

definition demo_store :: Store where
  "demo_store =
     \<lparr>arrays = [(1, [10, 11])],
      records = [(10, \<lparr>pa_name = ''walk'', pa_timestamp = 100, pa_length = 50, pa_looped = False\<rparr>),
                 (11, \<lparr>pa_name = ''walk'', pa_timestamp = 200, pa_length = 0, pa_looped = False\<rparr>)]\<rparr>"

section \<open>Facts about the search and the stop path\<close>

lemma find_idx_SomeD:
  "find_idx P xs = Some i \<Longrightarrow> i < length xs \<and> P (xs ! i) \<and> (\<forall>k<i. \<not> P (xs ! k))"
proof (induction xs arbitrary: i)
  case Nil
  then show ?case by simp
next
  case (Cons x xs)
  show ?case
  proof (cases "P x")
    case True
    with Cons.prems show ?thesis by simp
  next
    case False
    with Cons.prems obtain j where j: "find_idx P xs = Some j" "i = Suc j"
      by auto
    from Cons.IH[OF j(1)] False j(2) show ?thesis
      by (auto simp: less_Suc_eq_0_disj)
  qed
qed

lemma find_idx_None_iff: "find_idx P xs = None \<longleftrightarrow> (\<forall>x\<in>set xs. \<not> P x)"
  by (induction xs) auto

lemma find_idx_least:
  "i < length xs \<Longrightarrow> P (xs ! i) \<Longrightarrow> (\<forall>k<i. \<not> P (xs ! k)) \<Longrightarrow> find_idx P xs = Some i"
proof (induction xs arbitrary: i)
  case Nil
  then show ?case by simp
next
  case (Cons x xs)
  show ?case
  proof (cases i)
    case 0
    with Cons.prems show ?thesis by simp
  next
    case (Suc j)
    with Cons.prems have "\<not> P x" by auto
    moreover have "find_idx P xs = Some j"
      using Cons.prems Suc by (intro Cons.IH) auto
    ultimately show ?thesis using Suc by simp
  qed
qed

lemma stop_truthy: "truthy_name n \<Longrightarrow> stop (Suc d) w (Some n) = Inr (stop_named w n)"
  by simp

lemma clear_timer_fields [simp]:
  "animations (sprite (clear_timer w k)) = animations (sprite w)"
  "memory (sprite (clear_timer w k)) = memory (sprite w)"
  "animationCallbacks (sprite (clear_timer w k)) = animationCallbacks (sprite w)"
  "spritesheets (sprite (clear_timer w k)) = spritesheets (sprite w)"
  "currentFrame (sprite (clear_timer w k)) = currentFrame (sprite w)"
  "currentSpritesheetId (sprite (clear_timer w k)) = currentSpritesheetId (sprite w)"
  "lastPlayedAnimation (sprite (clear_timer w k)) = lastPlayedAnimation (sprite w)"
  "element (sprite (clear_timer w k)) = element (sprite w)"
  "invoked (clear_timer w k) = invoked w"
  "now (clear_timer w k) = now w"
  "timerSeq (clear_timer w k) = timerSeq w"
  by (simp_all add: clear_timer_def split: option.splits)

lemma clear_timer_absent:
  "map_of (activeIntervals (sprite w)) k = None \<Longrightarrow> clear_timer w k = w"
  by (simp add: clear_timer_def)


lemma run_callbacks_fields [simp]:
  "sprite (run_callbacks w k) = sprite w"
  "timers (run_callbacks w k) = timers w"
  "now (run_callbacks w k) = now w"
  "timerSeq (run_callbacks w k) = timerSeq w"
  by (simp_all add: run_callbacks_def split: option.splits)

lemma mark_stopped_fields [simp]:
  "timers (mark_stopped w nm) = timers w"
  "now (mark_stopped w nm) = now w"
  "timerSeq (mark_stopped w nm) = timerSeq w"
  "activeIntervals (sprite (mark_stopped w nm)) = activeIntervals (sprite w)"
  "animationCallbacks (sprite (mark_stopped w nm)) = animationCallbacks (sprite w)"
  "spritesheets (sprite (mark_stopped w nm)) = spritesheets (sprite w)"
  "currentFrame (sprite (mark_stopped w nm)) = currentFrame (sprite w)"
  "currentSpritesheetId (sprite (mark_stopped w nm)) = currentSpritesheetId (sprite w)"
  "element (sprite (mark_stopped w nm)) = element (sprite w)"
  "lastPlayedAnimation (sprite (mark_stopped w nm)) = lastPlayedAnimation (sprite w)"
  by (simp_all add: mark_stopped_def split: option.splits)

lemma mark_stopped_unregistered:
  "find_idx (\<lambda>anim. anim_name anim = nm) (animations (sprite w)) = None \<Longrightarrow>
   mark_stopped w nm = w"
  by (simp add: mark_stopped_def)

lemma played_mark_stopped:
  "find_idx (\<lambda>anim. anim_name anim = nm) (animations (sprite w)) = Some i \<Longrightarrow>
   playedAnimations (memory (sprite (mark_stopped w nm))) =
     backfill (playedAnimations (memory (sprite w))) (String_name nm) (now w)"
  by (simp add: mark_stopped_def)

lemma animations_mark_stopped:
  "find_idx (\<lambda>anim. anim_name anim = nm) (animations (sprite w)) = Some i \<Longrightarrow>
   animations (sprite (mark_stopped w nm)) =
     (animations (sprite w))[i := (animations (sprite w) ! i)\<lparr>anim_stopped := True\<rparr>]"
  by (simp add: mark_stopped_def)


lemma set_cursor_fields [simp]:
  "sprite (set_cursor w h k) = sprite w"
  "invoked (set_cursor w h k) = invoked w"
  "now (set_cursor w h k) = now w"
  "timerSeq (set_cursor w h k) = timerSeq w"
  by (simp_all add: set_cursor_def split: option.splits)

lemma show_frame_fields [simp]:
  "animations (sprite (show_frame w sh f)) = animations (sprite w)"
  "animationCallbacks (sprite (show_frame w sh f)) = animationCallbacks (sprite w)"
  "activeIntervals (sprite (show_frame w sh f)) = activeIntervals (sprite w)"
  "memory (sprite (show_frame w sh f)) = memory (sprite w)"
  "spritesheets (sprite (show_frame w sh f)) = spritesheets (sprite w)"
  "currentFrame (sprite (show_frame w sh f)) = Some f"
  "elem_background (element (sprite (show_frame w sh f))) = Some (sheet_cells sh ! nat f)"
  "invoked (show_frame w sh f) = invoked w"
  "timers (show_frame w sh f) = timers w"
  "now (show_frame w sh f) = now w"
  "timerSeq (show_frame w sh f) = timerSeq w"
  by (simp_all add: show_frame_def)



section \<open>End-callbacks and explicit stop\<close>




section \<open>stop on an animation that is not playing\<close>

text \<open>For a name that is neither playing nor registered, \<open>stop\<close> changes nothing and calls
  nothing.\<close>

lemma stop_unknown_name:
  assumes "truthy_name nm"
    and "map_of (activeIntervals (sprite w)) (String_name nm) = None"
    and "find_idx (\<lambda>anim. anim_name anim = nm) (animations (sprite w)) = None"
  shows "stop (Suc d) w (Some nm) = Inr w"
  using assms by (simp add: stop_named_def clear_timer_absent mark_stopped_unregistered)

text \<open>
  Claim C2 says that \<open>stop\<close> on a name with no entry in \<open>activeIntervals\<close> is a no-op and calls
  no end-callback, and \<open>onEnd\<close> documents its callback as "executed when an animation ends
  (completes without looping)". In the source only the clearing of the timer is guarded by
  the entry; the rest of the stop path, the end-callbacks included, runs for every registered
  animation. Here \<open>walk\<close> is registered with the end-callback 7, has never been played and has
  no timer: \<open>stop(sprite, 'walk')\<close> calls 7, and so does the first \<open>play(sprite, 'walk')\<close>,
  through its call of \<open>stop\<close>, before any playback has begun.
\<close>

theorem stop_idle_invokes_callback:
  "map_of (activeIntervals (sprite demo_idle)) ''walk'' = None
   \<and> timers demo_idle = []
   \<and> playedAnimations (memory (sprite demo_idle)) = []
   \<and> callbacks_of demo_idle (NameStr ''walk'') = [7]
   \<and> invoked demo_idle = []
   \<and> map_sum id invoked (stop 1 demo_idle (Some (NameStr ''walk''))) = Inr [7]
   \<and> map_sum id (invoked \<circ> snd) (play 2 demo_idle (NameStr ''walk'') None) = Inr [7]"
  by code_simp

section \<open>The history record that stop back-fills\<close>

lemma length_backfill [simp]: "length (backfill pas k t) = length pas"
  by (simp add: backfill_def split: option.splits)

text \<open>
  Claim C3 says that \<open>stop\<close> back-fills the most recent unfinished record of the name, the
  latest one whose length is still 0, and the field is documented as the "amount of time the
  animation was played for". The source takes the record \<open>find\<close> returns for \<open>!pa.length\<close>:
  the first record of the name with length 0, finished or not. Here \<open>walk\<close> was played twice
  within the millisecond 100: the restart finished the first record with an elapsed time of 0
  and appended the second. The second playback runs until \<open>stop\<close> at time 150, which charges
  the 50 milliseconds to the first record, whose playback ran for none, and leaves the record
  of the playback that ran for 50 milliseconds at 0.
\<close>

theorem stop_backfills_first_not_latest:
  "map pa_name (playedAnimations (memory (sprite demo_restarted))) = [''walk'', ''walk'']
   \<and> map pa_timestamp (playedAnimations (memory (sprite demo_restarted))) = [100, 100]
   \<and> history_lengths demo_restarted = [0, 0]
   \<and> map fst (timers demo_restarted) = [2]
   \<and> animationCallbacks (sprite demo_restarted) = []
   \<and> now demo_restarted = 150
   \<and> map_sum id history_lengths (stop 1 demo_restarted (Some (NameStr ''walk''))) = Inr [50, 0]"
  by code_simp

section \<open>destroy\<close>

text \<open>
  Claim C4 says that \<open>destroy\<close> clears every timer, empties \<open>spritesheets\<close>, \<open>animations\<close>,
  \<open>activeIntervals\<close> and \<open>animationCallbacks\<close>, truncates the history and removes the element
  once. The source has no statement for \<open>animations\<close>: on the sprite with \<open>walk\<close> playing
  everything else is emptied and the element removed once, and the animation list still holds
  \<open>walk\<close>.
\<close>

theorem destroy_keeps_animations:
  "animations (sprite (destroy w)) = animations (sprite w)
   \<and> length (animations (sprite (destroy demo_playing))) = 1
   \<and> spritesheets (sprite (destroy demo_playing)) = []
   \<and> activeIntervals (sprite (destroy demo_playing)) = []
   \<and> animationCallbacks (sprite (destroy demo_playing)) = []
   \<and> playedAnimations (memory (sprite (destroy demo_playing))) = []
   \<and> timers (destroy demo_playing) = []
   \<and> elem_removed (element (sprite (destroy demo_playing))) = 1"
proof -
  have "animations (sprite (destroy w)) = animations (sprite w)"
    by (simp add: destroy_def)
  moreover have "length (animations (sprite (destroy demo_playing))) = 1
   \<and> spritesheets (sprite (destroy demo_playing)) = []
   \<and> activeIntervals (sprite (destroy demo_playing)) = []
   \<and> animationCallbacks (sprite (destroy demo_playing)) = []
   \<and> playedAnimations (memory (sprite (destroy demo_playing))) = []
   \<and> timers (destroy demo_playing) = []
   \<and> elem_removed (element (sprite (destroy demo_playing))) = 1"
    by code_simp
  ultimately show ?thesis by simp
qed

section \<open>The stop-all branch\<close>




lemma error_RangeError: "(e::error) = RangeError"
  by (cases e) simp

lemma stop_named_intervals_other:
  "k \<noteq> k' \<Longrightarrow>
   map_of (activeIntervals (sprite (stop_named w (NameStr k)))) k' = map_of (activeIntervals (sprite w)) k'"
  by (simp add: stop_named_def clear_timer_def delete_conv split: option.splits)

lemma forEach_empty_key_overflows:
  assumes f: "\<And>w. map_of (activeIntervals (sprite w)) [] \<noteq> None \<Longrightarrow> stop d w (Some (NameStr [])) = Inl RangeError"
  shows "[] \<in> set ks \<Longrightarrow> map_of (activeIntervals (sprite w)) [] \<noteq> None \<Longrightarrow>
         forEach_interval (\<lambda>w' animName. stop d w' (Some (NameStr animName))) ks w = Inl RangeError"
proof (induction ks arbitrary: w)
  case Nil
  then show ?case by simp
next
  case (Cons k ks)
  show ?case
  proof (cases "k = []")
    case True
    with Cons.prems f[of w] show ?thesis by auto
  next
    case False
    with Cons.prems have mem: "[] \<in> set ks" by simp
    show ?thesis
    proof (cases "map_of (activeIntervals (sprite w)) k = None")
      case True
      with Cons.IH[OF mem Cons.prems(2)] show ?thesis by simp
    next
      case present: False
      show ?thesis
      proof (cases d)
        case 0
        with present show ?thesis by auto
      next
        case (Suc d')
        have "map_of (activeIntervals (sprite (stop_named w (NameStr k)))) [] \<noteq> None"
          using Cons.prems(2) False by (simp add: stop_named_intervals_other)
        from Cons.IH[OF mem this] present Suc False show ?thesis by auto
      qed
    qed
  qed
qed

lemma stop_empty_key_overflows:
  "map_of (activeIntervals (sprite w)) [] \<noteq> None \<Longrightarrow>
   (case nm of None \<Rightarrow> True | Some n \<Rightarrow> \<not> truthy_name n) \<Longrightarrow>
   stop d w nm = Inl RangeError"
proof (induction d arbitrary: w nm)
  case 0
  then show ?case by simp
next
  case (Suc d)
  have mem: "[] \<in> set (map fst (activeIntervals (sprite w)))"
    using Suc.prems(1) by (metis map_of_eq_None_iff set_map)
  have "forEach_interval (\<lambda>w' animName. stop d w' (Some (NameStr animName)))
          (map fst (activeIntervals (sprite w))) w = Inl RangeError"
    by (rule forEach_empty_key_overflows[OF _ mem Suc.prems(1)]) (simp add: Suc.IH)
  with Suc.prems(2) show ?case by (auto split: option.splits)
qed




lemma forEach_stop_all:
  "[] \<notin> set ks \<Longrightarrow>
   forEach_interval (\<lambda>w' animName. stop (Suc d) w' (Some (NameStr animName))) ks w
     = Inr (fold stop_key ks w)"
  by (induction ks arbitrary: w) (auto simp: stop_key_def)


lemma stop_named_intervals:
  "map_of (activeIntervals (sprite w)) k = Some h \<Longrightarrow> h \<noteq> 0 \<Longrightarrow>
   activeIntervals (sprite (stop_named w (NameStr k))) = AList.delete k (activeIntervals (sprite w))"
  by (simp add: stop_named_def clear_timer_def)

lemma stop_named_timers:
  "map_of (activeIntervals (sprite w)) k = Some h \<Longrightarrow> h \<noteq> 0 \<Longrightarrow>
   timers (stop_named w (NameStr k)) = AList.delete h (timers w)"
  by (simp add: stop_named_def clear_timer_def)

lemma handles_okD:
  "handles_ok w \<Longrightarrow> map_of (activeIntervals (sprite w)) k = Some h \<Longrightarrow> h \<noteq> 0"
  unfolding handles_ok_def list_all_iff by (metis map_of_SomeD snd_conv)

lemma handles_ok_stop_key:
  assumes "handles_ok w"
  shows "handles_ok (stop_key k w)"
proof (cases "map_of (activeIntervals (sprite w)) k")
  case None
  with assms show ?thesis by (simp add: stop_key_def)
next
  case (Some h)
  with assms have "h \<noteq> 0" by (rule handles_okD)
  with Some have "activeIntervals (sprite (stop_key k w)) = AList.delete k (activeIntervals (sprite w))"
    by (simp add: stop_key_def stop_named_intervals)
  with assms show ?thesis
    by (simp add: handles_ok_def AList.delete_eq list_all_iff)
qed

lemma intervals_stop_key:
  "handles_ok w \<Longrightarrow>
   activeIntervals (sprite (stop_key k w)) = filter (\<lambda>p. fst p \<noteq> k) (activeIntervals (sprite w))"
proof (cases "map_of (activeIntervals (sprite w)) k")
  case None
  then have "\<forall>p\<in>set (activeIntervals (sprite w)). fst p \<noteq> k"
    by (metis map_of_eq_None_iff image_eqI)
  then have "filter (\<lambda>p. fst p \<noteq> k) (activeIntervals (sprite w)) = activeIntervals (sprite w)"
    by (simp add: filter_id_conv)
  with None show ?thesis by (simp add: stop_key_def)
next
  case (Some h)
  assume "handles_ok w"
  with Some have "h \<noteq> 0" by (simp add: handles_okD)
  with Some show ?thesis
    by (auto simp: stop_key_def stop_named_intervals AList.delete_eq intro!: filter_cong)
qed

lemma intervals_fold_stop_key:
  "handles_ok w \<Longrightarrow>
   activeIntervals (sprite (fold stop_key ks w))
     = filter (\<lambda>p. fst p \<notin> set ks) (activeIntervals (sprite w))"
proof (induction ks arbitrary: w)
  case Nil
  then show ?case by simp
next
  case (Cons k ks)
  have "activeIntervals (sprite (fold stop_key ks (stop_key k w)))
          = filter (\<lambda>p. fst p \<notin> set ks) (activeIntervals (sprite (stop_key k w)))"
    by (rule Cons.IH) (rule handles_ok_stop_key[OF Cons.prems])
  also have "\<dots> = filter (\<lambda>p. fst p \<notin> set ks) (filter (\<lambda>p. fst p \<noteq> k) (activeIntervals (sprite w)))"
    by (simp add: intervals_stop_key[OF Cons.prems])
  also have "\<dots> = filter (\<lambda>p. fst p \<notin> set (k # ks)) (activeIntervals (sprite w))"
    by (simp add: conj_commute)
  finally show ?case by simp
qed

lemma timers_stop_key_mono:
  "map_of (timers w) h = None \<Longrightarrow> map_of (timers (stop_key k w)) h = None"
  by (simp add: stop_key_def stop_named_def clear_timer_def delete_conv split: option.splits)

lemma timers_fold_stop_key_mono:
  "map_of (timers w) h = None \<Longrightarrow> map_of (timers (fold stop_key ks w)) h = None"
  by (induction ks arbitrary: w) (simp_all add: timers_stop_key_mono)

lemma intervals_stop_key_other:
  "k' \<noteq> k \<Longrightarrow> map_of (activeIntervals (sprite (stop_key k w))) k' = map_of (activeIntervals (sprite w)) k'"
  by (simp add: stop_key_def stop_named_intervals_other)

lemma timers_fold_stop_key:
  "handles_ok w \<Longrightarrow> k \<in> set ks \<Longrightarrow> map_of (activeIntervals (sprite w)) k = Some h \<Longrightarrow>
   map_of (timers (fold stop_key ks w)) h = None"
proof (induction ks arbitrary: w)
  case Nil
  then show ?case by simp
next
  case (Cons k0 ks)
  show ?case
  proof (cases "k0 = k")
    case True
    from Cons.prems True have "h \<noteq> 0" by (simp add: handles_okD)
    with Cons.prems(3) True have "map_of (timers (stop_key k0 w)) h = None"
      by (simp add: stop_key_def stop_named_timers delete_conv)
    then show ?thesis by (simp add: timers_fold_stop_key_mono)
  next
    case False
    with Cons.prems have "k \<in> set ks" by simp
    moreover have "map_of (activeIntervals (sprite (stop_key k0 w))) k = Some h"
      using False Cons.prems(3) by (simp add: intervals_stop_key_other)
    ultimately show ?thesis
      using Cons.IH[OF handles_ok_stop_key[OF Cons.prems(1)]] by simp
  qed
qed

lemma stop_falsy_eq:
  "stop d w (Some (NameNum 0)) = stop d w None"
  by (cases d) simp_all

lemma stop_all_clears:
  assumes "map_of (activeIntervals (sprite w)) [] = None" and "handles_ok w"
  shows "\<exists>w'. stop (Suc (Suc d)) w None = Inr w' \<and> w' = fold stop_key (map fst (activeIntervals (sprite w))) w
            \<and> activeIntervals (sprite w') = []
            \<and> (\<forall>k h. map_of (activeIntervals (sprite w)) k = Some h \<longrightarrow> map_of (timers w') h = None)"
proof -
  let ?ks = "map fst (activeIntervals (sprite w))"
  have nomem: "[] \<notin> set ?ks"
    using assms(1) by (metis map_of_eq_None_iff set_map)
  have run: "stop (Suc (Suc d)) w None = Inr (fold stop_key ?ks w)"
    using forEach_stop_all[OF nomem, of d w] by simp
  have "filter (\<lambda>p. fst p \<notin> set ?ks) (activeIntervals (sprite w)) = []"
    by (simp add: filter_empty_conv)
  then have empty: "activeIntervals (sprite (fold stop_key ?ks w)) = []"
    by (simp add: intervals_fold_stop_key[OF assms(2)])
  have "\<forall>k h. map_of (activeIntervals (sprite w)) k = Some h \<longrightarrow> map_of (timers (fold stop_key ?ks w)) h = None"
  proof (intro allI impI)
    fix k h assume kh: "map_of (activeIntervals (sprite w)) k = Some h"
    then have "k \<in> set ?ks" by (metis map_of_eq_None_iff option.distinct(1) set_map)
    from timers_fold_stop_key[OF assms(2) this kh]
    show "map_of (timers (fold stop_key ?ks w)) h = None" .
  qed
  with run empty show ?thesis by simp
qed


lemma forEach_result:
  "forEach_interval (\<lambda>w' animName. stop d w' (Some (NameStr animName))) ks w = Inr w1 \<Longrightarrow>
   w1 = fold stop_key ks w"
proof (induction ks arbitrary: w)
  case Nil
  then show ?case by simp
next
  case (Cons k ks)
  show ?case
  proof (cases "map_of (activeIntervals (sprite w)) k = None")
    case True
    with Cons show ?thesis by (simp add: stop_key_def)
  next
    case present: False
    from Cons.prems present obtain w2 where
      w2: "stop d w (Some (NameStr k)) = Inr w2"
      and rest: "forEach_interval (\<lambda>w' animName. stop d w' (Some (NameStr animName))) ks w2 = Inr w1"
      by (auto split: sum.splits)
    have "k \<noteq> []"
    proof
      assume "k = []"
      with present have "stop d w (Some (NameStr k)) = Inl RangeError"
        by (intro stop_empty_key_overflows) auto
      with w2 show False by simp
    qed
    with w2 have "w2 = stop_named w (NameStr k)"
      by (cases d) auto
    with present have "w2 = stop_key k w" by (auto simp: stop_key_def)
    with Cons.IH[OF rest] show ?thesis by simp
  qed
qed

lemma stop_result: "stop d w nm = Inr w1 \<Longrightarrow> w1 = stop_effect w nm"
proof (cases d)
  case 0
  assume "stop d w nm = Inr w1"
  with 0 show ?thesis by simp
next
  case (Suc d')
  assume a: "stop d w nm = Inr w1"
  show ?thesis
  proof (cases "case nm of None \<Rightarrow> False | Some n \<Rightarrow> truthy_name n")
    case True
    with a Suc show ?thesis by (auto simp: stop_effect_def split: option.splits)
  next
    case False
    with a Suc have "forEach_interval (\<lambda>w' animName. stop d' w' (Some (NameStr animName)))
                       (map fst (activeIntervals (sprite w))) w = Inr w1"
      by (auto split: option.splits if_splits)
    from forEach_result[OF this] False show ?thesis
      by (auto simp: stop_effect_def split: option.splits)
  qed
qed

lemma stop_frame_refl: "stop_frame w w"
  by (simp add: stop_frame_def)

lemma stop_frame_trans: "stop_frame a b \<Longrightarrow> stop_frame b c \<Longrightarrow> stop_frame a c"
  by (simp add: stop_frame_def)

lemma map_stopped_update:
  "i < length xs \<Longrightarrow>
   map (anim_stopped_update (\<lambda>b. True)) (xs[i := (xs ! i)\<lparr>anim_stopped := True\<rparr>])
     = map (anim_stopped_update (\<lambda>b. True)) xs"
  by (simp add: map_update list_update_same_conv)

lemma stop_frame_mark_stopped: "stop_frame w (mark_stopped w nm)"
proof (cases "find_idx (\<lambda>anim. anim_name anim = nm) (animations (sprite w))")
  case None
  then show ?thesis by (simp add: mark_stopped_unregistered stop_frame_refl)
next
  case (Some i)
  then have "i < length (animations (sprite w))"
    using find_idx_SomeD by fastforce
  with Some show ?thesis
    by (simp add: stop_frame_def animations_mark_stopped played_mark_stopped map_stopped_update)
qed

lemma stop_frame_clear_timer: "stop_frame w (clear_timer w k)"
  by (simp add: stop_frame_def)

lemma stop_frame_stop_named: "stop_frame w (stop_named w nm)"
  unfolding stop_named_def
  by (rule stop_frame_trans[OF stop_frame_clear_timer stop_frame_mark_stopped])

lemma stop_frame_stop_key: "stop_frame w (stop_key k w)"
  by (simp add: stop_key_def stop_frame_refl stop_frame_stop_named)

lemma stop_frame_fold: "stop_frame w (fold stop_key ks w)"
proof (induction ks arbitrary: w)
  case Nil
  show ?case by (simp add: stop_frame_refl)
next
  case (Cons k ks)
  from stop_frame_trans[OF stop_frame_stop_key Cons] show ?case by simp
qed

lemma stop_frame_effect: "stop_frame w (stop_effect w nm)"
  by (simp add: stop_effect_def stop_frame_fold stop_frame_stop_named split: option.splits)

lemma stop_frame_stop: "stop d w nm = Inr w1 \<Longrightarrow> stop_frame w w1"
  using stop_result stop_frame_effect by blast



lemma String_name_zero: "String_name (NameNum 0) = ''0''"
  by (simp add: String_int_def digit_char_def)



lemma play_run:
  "find_idx (\<lambda>anim. anim_name anim = nm) (animations (sprite w)) = Some i \<Longrightarrow>
   getSpriteSheetForAnimation (sprite w) (animations (sprite w) ! i) = Some sh \<Longrightarrow>
   stop d w (Some nm) = Inr w1 \<Longrightarrow>
   play d w nm loop = Inr (True, start_playback w1 i nm sh loop)"
  by (simp add: play_def)

lemma start_playback_fields:
  "activeIntervals (sprite (start_playback w i nm sh loop))
     = AList.update (String_name nm) (Suc (timerSeq w)) (activeIntervals (sprite w))"
  "timers (start_playback w i nm sh loop)
     = AList.update (Suc (timerSeq w))
         \<lparr>t_animation = i, t_animationName = nm, t_spritesheet = sh,
          t_shouldLoop = (case loop of None \<Rightarrow> anim_loop (animations (sprite w) ! i) | Some l \<Rightarrow> l),
          t_frameIndex = 0\<rparr> (timers w)"
  "playedAnimations (memory (sprite (start_playback w i nm sh loop)))
     = playedAnimations (memory (sprite w)) @
         [\<lparr>pa_name = String_name nm, pa_timestamp = now w, pa_length = 0,
           pa_looped = (case loop of None \<Rightarrow> anim_loop (animations (sprite w) ! i) | Some l \<Rightarrow> l)\<rparr>]"
  "animations (sprite (start_playback w i nm sh loop))
     = (animations (sprite w))[i := (animations (sprite w) ! i)\<lparr>anim_stopped := False\<rparr>]"
  by (simp_all add: start_playback_def Let_def)


section \<open>A thrown exception\<close>

lemma setFrame_negative_index: "index < 0 \<Longrightarrow> setFrame s index sid = (False, s)"
  by (simp add: setFrame_def validateFrameIndex_def Let_def split: option.splits)

lemma setFrame_unknown_sheet:
  "truthy_str sid \<Longrightarrow> map_of (spritesheets s) (the sid) = None \<Longrightarrow>
   setFrame s index sid = (False, s)"
  by (simp add: setFrame_def str_or_def)

lemma setFrame_false_unchanged: "fst (setFrame s index sid) = False \<Longrightarrow> snd (setFrame s index sid) = s"
  by (simp add: setFrame_def Let_def split: option.splits if_splits)

lemma createSprite_invalid:
  "opt_name options = [] \<or> opt_width options \<le> 0 \<or> opt_height options \<le> 0 \<Longrightarrow>
   createSprite options ok = None"
  by (auto simp: createSprite_def)

text \<open>
  Claim C8 says that every fallible operation reports failure by returning false or null and
  never throws (and that a failing call changes nothing; in particular \<open>setFrame\<close> and
  \<open>createSprite\<close> on the listed inputs). \<open>play\<close> does throw: \<open>addAnimation\<close> accepts the empty
  string as a name; while that animation is playing, \<open>play(sprite, '')\<close> calls
  \<open>stop(sprite, '')\<close>, which takes the stop-all branch for the falsy name and calls itself on
  the key \<open>''\<close> without end. Whatever stack the engine has, the call ends in \<open>RangeError\<close>;
  so does \<open>stop(sprite)\<close>.
\<close>

theorem play_unnamed_RangeError:
  "play d demo_unnamed_playing (NameStr []) None = Inl RangeError
   \<and> stop d demo_unnamed_playing None = Inl RangeError"
proof -
  have a: "map_of (activeIntervals (sprite demo_unnamed_playing)) [] \<noteq> None"
    by code_simp
  have b: "find_idx (\<lambda>anim. anim_name anim = NameStr []) (animations (sprite demo_unnamed_playing)) = Some 0"
    by code_simp
  have c: "getSpriteSheetForAnimation (sprite demo_unnamed_playing) (animations (sprite demo_unnamed_playing) ! 0) \<noteq> None"
    by code_simp
  have "stop d demo_unnamed_playing (Some (NameStr [])) = Inl RangeError"
    by (rule stop_empty_key_overflows[OF a]) simp
  moreover have "stop d demo_unnamed_playing None = Inl RangeError"
    by (rule stop_empty_key_overflows[OF a]) simp
  ultimately show ?thesis using b c by (auto simp: play_def)
qed

section \<open>The animation named 0\<close>

text \<open>With an animation of the empty name playing, the stop-all branch does not return, whatever
  the name it was entered for.\<close>

lemma stop_zero_overflows:
  "stop d demo_unnamed_and_walk (Some (NameNum 0)) = Inl RangeError"
proof -
  have "map_of (activeIntervals (sprite demo_unnamed_and_walk)) [] \<noteq> None"
    by code_simp
  then show ?thesis by (rule stop_empty_key_overflows) simp
qed

text \<open>
  Claim C10 says that \<open>stop(sprite, 0)\<close> takes the stop-all branch and so stops every
  animation that is playing. It takes that branch, but the branch does not always stop them:
  here the animation with the empty name and \<open>walk\<close> are playing, the key \<open>''\<close> is the first
  that the branch visits, and \<open>stop(sprite, 0)\<close> ends in \<open>RangeError\<close> (here on a stack of ten
  thousand calls, and by \<open>stop_zero_overflows\<close> on any other) before it reaches \<open>walk\<close>.
\<close>

theorem stop_zero_throws_with_unnamed:
  "activeIntervals (sprite demo_unnamed_and_walk) = [([], 1), (''walk'', 2)]
   \<and> map fst (timers demo_unnamed_and_walk) = [1, 2]
   \<and> stop 10000 demo_unnamed_and_walk (Some (NameNum 0)) = Inl RangeError"
proof -
  have "activeIntervals (sprite demo_unnamed_and_walk) = [([], 1), (''walk'', 2)]"
       "map fst (timers demo_unnamed_and_walk) = [1, 2]"
    by code_simp+
  with stop_zero_overflows[of 10000] show ?thesis by simp
qed

text \<open>
  Claim C10, as amended: \<open>stop(sprite, 0)\<close> takes the stop-all branch, because the number 0 is
  falsy: it is the same computation as \<open>stop(sprite)\<close>. When no animation with the empty name
  is playing (and the handles are the host's, none of them 0), it returns with
  \<open>activeIntervals\<close> empty and the timer of every animation that was playing cleared, not only
  the timer of the animation 0. Consequently \<open>play(sprite, 0)\<close>, for a registered animation 0
  with a sheet, then leaves the new timer of 0 as the only entry and every earlier timer
  cleared.
\<close>

theorem stop_zero_stops_all:
  "stop d w (Some (NameNum 0)) = stop d w None
   \<and> (map_of (activeIntervals (sprite w)) [] = None \<and> handles_ok w \<longrightarrow>
        (\<exists>w'. stop (Suc (Suc d)) w (Some (NameNum 0)) = Inr w'
           \<and> activeIntervals (sprite w') = []
           \<and> (\<forall>k h. map_of (activeIntervals (sprite w)) k = Some h \<longrightarrow> map_of (timers w') h = None)))
   \<and> (map_of (activeIntervals (sprite w)) [] = None \<and> handles_ok w
        \<and> find_idx (\<lambda>anim. anim_name anim = NameNum 0) (animations (sprite w)) = Some i
        \<and> getSpriteSheetForAnimation (sprite w) (animations (sprite w) ! i) = Some sh \<longrightarrow>
        (\<exists>w'. play (Suc (Suc d)) w (NameNum 0) loop = Inr (True, w')
           \<and> activeIntervals (sprite w') = [(''0'', Suc (timerSeq w))]
           \<and> (\<forall>k h. map_of (activeIntervals (sprite w)) k = Some h \<and> h \<le> timerSeq w
                 \<longrightarrow> map_of (timers w') h = None)))"
proof (intro conjI impI)
  show "stop d w (Some (NameNum 0)) = stop d w None" by (rule stop_falsy_eq)
next
  assume a: "map_of (activeIntervals (sprite w)) [] = None \<and> handles_ok w"
  from stop_all_clears[of w d] a
  show "\<exists>w'. stop (Suc (Suc d)) w (Some (NameNum 0)) = Inr w'
           \<and> activeIntervals (sprite w') = []
           \<and> (\<forall>k h. map_of (activeIntervals (sprite w)) k = Some h \<longrightarrow> map_of (timers w') h = None)"
    by (auto simp: stop_falsy_eq)
next
  assume a: "map_of (activeIntervals (sprite w)) [] = None \<and> handles_ok w
        \<and> find_idx (\<lambda>anim. anim_name anim = NameNum 0) (animations (sprite w)) = Some i
        \<and> getSpriteSheetForAnimation (sprite w) (animations (sprite w) ! i) = Some sh"
  from stop_all_clears[of w d] a obtain w1 where
    w1: "stop (Suc (Suc d)) w (Some (NameNum 0)) = Inr w1"
    and e: "activeIntervals (sprite w1) = []"
    and t: "\<forall>k h. map_of (activeIntervals (sprite w)) k = Some h \<longrightarrow> map_of (timers w1) h = None"
    by (auto simp: stop_falsy_eq)
  from stop_frame_stop[OF w1] have seq: "timerSeq w1 = timerSeq w"
    by (simp add: stop_frame_def)
  let ?w' = "start_playback w1 i (NameNum 0) sh loop"
  have p: "play (Suc (Suc d)) w (NameNum 0) loop = Inr (True, ?w')"
    using a w1 by (intro play_run) auto
  have "activeIntervals (sprite ?w') = [(''0'', Suc (timerSeq w))]"
    using e seq by (simp add: start_playback_fields String_int_def digit_char_def)
  moreover have "\<forall>k h. map_of (activeIntervals (sprite w)) k = Some h \<and> h \<le> timerSeq w
                 \<longrightarrow> map_of (timers ?w') h = None"
    using t seq by (auto simp: start_playback_fields update_conv')
  ultimately show "\<exists>w'. play (Suc (Suc d)) w (NameNum 0) loop = Inr (True, w')
           \<and> activeIntervals (sprite w') = [(''0'', Suc (timerSeq w))]
           \<and> (\<forall>k h. map_of (activeIntervals (sprite w)) k = Some h \<and> h \<le> timerSeq w
                 \<longrightarrow> map_of (timers w') h = None)"
    using p by blast
qed

theorem stop_zero_stops_all_witness:
  "activeIntervals (sprite demo_two_playing) = [(''0'', 1), (''walk'', 2)]
   \<and> map fst (timers demo_two_playing) = [1, 2]
   \<and> timerSeq demo_two_playing = 2
   \<and> map_of (activeIntervals (sprite demo_two_playing)) [] = None
   \<and> handles_ok demo_two_playing
   \<and> find_idx (\<lambda>anim. anim_name anim = NameNum 0) (animations (sprite demo_two_playing)) = Some 1
   \<and> getSpriteSheetForAnimation (sprite demo_two_playing) (animations (sprite demo_two_playing) ! 1)
       = map_of (spritesheets (sprite demo_two_playing)) ''main''
   \<and> map_of (spritesheets (sprite demo_two_playing)) ''main'' \<noteq> None
   \<and> (\<exists>w'. stop 2 demo_two_playing (Some (NameNum 0)) = Inr w'
         \<and> activeIntervals (sprite w') = []
         \<and> map_of (timers w') 1 = None \<and> map_of (timers w') 2 = None)
   \<and> (\<exists>w'. play 2 demo_two_playing (NameNum 0) None = Inr (True, w')
         \<and> activeIntervals (sprite w') = [(''0'', 3)]
         \<and> map_of (timers w') 1 = None \<and> map_of (timers w') 2 = None)"
proof -
  have ai: "activeIntervals (sprite demo_two_playing) = [(''0'', 1), (''walk'', 2)]"
    by code_simp
  have tm: "map fst (timers demo_two_playing) = [1, 2]" "timerSeq demo_two_playing = 2"
    by code_simp+
  have nokey: "map_of (activeIntervals (sprite demo_two_playing)) [] = None"
    by (simp add: ai)
  have ok: "handles_ok demo_two_playing"
    by (simp add: handles_ok_def ai)
  have fi: "find_idx (\<lambda>anim. anim_name anim = NameNum 0) (animations (sprite demo_two_playing)) = Some 1"
    by code_simp
  have sh: "getSpriteSheetForAnimation (sprite demo_two_playing) (animations (sprite demo_two_playing) ! 1)
       = map_of (spritesheets (sprite demo_two_playing)) ''main''"
       "map_of (spritesheets (sprite demo_two_playing)) ''main'' \<noteq> None"
    by code_simp+
  then obtain sheet where sheet:
    "getSpriteSheetForAnimation (sprite demo_two_playing) (animations (sprite demo_two_playing) ! 1) = Some sheet"
    by auto
  note inst = stop_zero_stops_all[of 0 demo_two_playing 1 sheet None]
  have m: "map_of (activeIntervals (sprite demo_two_playing)) ''0'' = Some 1"
          "map_of (activeIntervals (sprite demo_two_playing)) ''walk'' = Some 2"
    by (simp_all add: ai)
  from inst nokey ok obtain w' where
    r: "stop 2 demo_two_playing (Some (NameNum 0)) = Inr w'" "activeIntervals (sprite w') = []"
    and g: "\<forall>k h. map_of (activeIntervals (sprite demo_two_playing)) k = Some h
              \<longrightarrow> map_of (timers w') h = None"
    by (auto simp: numeral_2_eq_2)
  from g m have "map_of (timers w') 1 = None" "map_of (timers w') 2 = None"
    by blast+
  with r have s: "\<exists>w'. stop 2 demo_two_playing (Some (NameNum 0)) = Inr w'
         \<and> activeIntervals (sprite w') = []
         \<and> map_of (timers w') 1 = None \<and> map_of (timers w') 2 = None"
    by blast
  from inst nokey ok fi sheet obtain w'' where
    r': "play 2 demo_two_playing (NameNum 0) None = Inr (True, w'')"
    "activeIntervals (sprite w'') = [(''0'', Suc (timerSeq demo_two_playing))]"
    and g': "\<forall>k h. map_of (activeIntervals (sprite demo_two_playing)) k = Some h
                 \<and> h \<le> timerSeq demo_two_playing
                 \<longrightarrow> map_of (timers w'') h = None"
    by (auto simp: numeral_2_eq_2)
  have "(1::nat) \<le> timerSeq demo_two_playing" "(2::nat) \<le> timerSeq demo_two_playing"
    by (simp_all add: tm)
  with g' m have "map_of (timers w'') 1 = None" "map_of (timers w'') 2 = None"
    by blast+
  with r' tm have p: "\<exists>w'. play 2 demo_two_playing (NameNum 0) None = Inr (True, w')
         \<and> activeIntervals (sprite w') = [(''0'', 3)]
         \<and> map_of (timers w') 1 = None \<and> map_of (timers w') 2 = None"
    by (intro exI[of _ w'']) simp
  from ai tm nokey ok fi sh s p show ?thesis by blast
qed

text \<open>The stop-all branch calls \<open>stop\<close> with the keys, which are strings: the timer of the
  animation 0 is cleared under the key \<open>"0"\<close>, but no animation has the name \<open>"0"\<close>, so its
  \<open>stopped\<close> flag stays false, while \<open>walk\<close> is marked stopped.\<close>

lemma stop_zero_leaves_flag:
  "map anim_name (animations (sprite demo_two_playing)) = [NameStr ''walk'', NameNum 0]
   \<and> map_sum id (map anim_stopped \<circ> animations \<circ> sprite)
        (stop 2 demo_two_playing (Some (NameNum 0))) = Inr [True, False]"
  by code_simp

section \<open>getMemory\<close>


lemma fold_max_ge: "(a::nat) \<le> fold max ks a"
proof (induction ks arbitrary: a)
  case Nil
  show ?case by simp
next
  case (Cons k ks)
  have "a \<le> max k a" by simp
  also have "\<dots> \<le> fold max ks (max k a)" by (rule Cons.IH)
  finally show ?case by simp
qed

lemma fold_max_mem: "k \<in> set ks \<Longrightarrow> (k::nat) \<le> fold max ks a"
proof (induction ks arbitrary: a)
  case Nil
  then show ?case by simp
next
  case (Cons x ks)
  show ?case
  proof (cases "k = x")
    case True
    have "k \<le> max x a" using True by simp
    also have "\<dots> \<le> fold max ks (max x a)" by (rule fold_max_ge)
    finally show ?thesis by simp
  next
    case False
    with Cons.prems have "k \<in> set ks" by simp
    from Cons.IH[OF this] show ?thesis by simp
  qed
qed

lemma fresh_array_new: "map_of (arrays st) (fresh_array st) = None"
proof (rule ccontr)
  assume "map_of (arrays st) (fresh_array st) \<noteq> None"
  then have "fresh_array st \<in> set (map fst (arrays st))"
    by (metis map_of_eq_None_iff set_map)
  from fold_max_mem[OF this, of 0] show False
    by (simp add: fresh_array_def)
qed

text \<open>
  Claim C9: \<open>getMemory\<close> returns a copy whose \<open>playedAnimations\<close> array is independent of the
  sprite's: the returned array is a new one with the same elements, the call leaves the
  sprite's log as it was, and whatever list of elements the caller then gives the returned
  array (adding, removing or reordering elements), the sprite's log reads as before.
\<close>

theorem getMemory_array_independent:
  assumes "map_of (arrays st) log = Some es"
  shows "fst (getMemory st log) \<noteq> log
       \<and> read_array (snd (getMemory st log)) (fst (getMemory st log)) = read_array st log
       \<and> read_array (snd (getMemory st log)) log = read_array st log
       \<and> read_array (write_array (snd (getMemory st log)) (fst (getMemory st log)) es') log
           = read_array st log"
proof -
  have fresh: "map_of (arrays st) (fresh_array st) = None" by (rule fresh_array_new)
  with assms have ne: "fresh_array st \<noteq> log" by auto
  have copy: "map_of (arrays st @ [(fresh_array st, es)]) (fresh_array st) = Some es"
    using fresh by (simp add: map_add_def)
  have keep: "map_of (arrays st @ [(fresh_array st, es)]) log = Some es"
    using assms by (simp add: map_add_def)
  show ?thesis
    using assms ne copy keep
    by (simp add: getMemory_def Let_def read_array_def write_array_def update_conv')
qed

theorem getMemory_array_independent_witness:
  "map_of (arrays demo_store) 1 = Some [10, 11]
   \<and> fst (getMemory demo_store 1) = 2
   \<and> read_array (snd (getMemory demo_store 1)) 2 = read_array demo_store 1
   \<and> read_array (write_array (snd (getMemory demo_store 1)) 2 [11]) 1 = read_array demo_store 1
   \<and> length (read_array (write_array (snd (getMemory demo_store 1)) 2 [11]) 2) = 1
   \<and> length (read_array demo_store 1) = 2"
proof -
  have a: "map_of (arrays demo_store) 1 = Some [10, 11]" by (simp add: demo_store_def)
  have b: "fst (getMemory demo_store 1) = 2"
    by (simp add: getMemory_def demo_store_def fresh_array_def)
  have c: "length (read_array (write_array (snd (getMemory demo_store 1)) 2 [11]) 2) = 1"
          "length (read_array demo_store 1) = 2"
    by (simp_all add: getMemory_def demo_store_def fresh_array_def read_array_def write_array_def)
  from getMemory_array_independent[OF a, of "[11]"] b c a show ?thesis by simp
qed

text \<open>The copy is shallow: the two arrays hold the same records, so that an assignment to a
  field of a record reached through the returned array is seen in the sprite's log.\<close>

lemma getMemory_shares_records:
  assumes "map_of (arrays st) log = Some es" and "e \<in> set es"
  shows "map_of (records (write_record (snd (getMemory st log)) e pa)) e = Some pa
       \<and> Some pa \<in> set (read_array (write_record (snd (getMemory st log)) e pa) log)"
proof -
  have keep: "map_of (arrays st @ [(fresh_array st, es)]) log = Some es"
    using assms(1) by (simp add: map_add_def)
  have rec: "map_of (AList.update e pa (records st)) e = Some pa"
    by (simp add: update_conv')
  from assms(2) have "Some pa \<in> (\<lambda>x. map_of (AList.update e pa (records st)) x) ` set es"
    using rec by (metis image_eqI)
  with assms(1) keep rec show ?thesis
    by (simp add: getMemory_def Let_def write_record_def read_array_def)
qed

section \<open>The grid of a spritesheet\<close>


lemma cols_loop_eq:
  "0 \<le> col \<Longrightarrow>
   cols_loop sheet row col acc
     = acc @ map (\<lambda>k. cell_css sheet row (int k)) [nat col ..< nat (sheet_columns sheet)]"
proof (induction sheet row col acc rule: cols_loop.induct)
  case (1 sheet row col acc)
  show ?case
  proof (cases "col < sheet_columns sheet")
    case True
    with "1.prems" have lt: "nat col < nat (sheet_columns sheet)" by simp
    have "cols_loop sheet row col acc = cols_loop sheet row (col + 1) (acc @ [cell_css sheet row col])"
      using True by simp
    also have "\<dots> = (acc @ [cell_css sheet row col])
                 @ map (\<lambda>k. cell_css sheet row (int k)) [nat (col + 1) ..< nat (sheet_columns sheet)]"
      using "1.IH"[OF True] "1.prems" by simp
    also have "nat (col + 1) = Suc (nat col)" using "1.prems" by simp
    finally have step: "cols_loop sheet row col acc = (acc @ [cell_css sheet row col])
                 @ map (\<lambda>k. cell_css sheet row (int k)) [Suc (nat col) ..< nat (sheet_columns sheet)]" .
    have unfold: "[nat col ..< nat (sheet_columns sheet)]
                    = nat col # [Suc (nat col) ..< nat (sheet_columns sheet)]"
      by (rule upt_conv_Cons[OF lt])
    from step "1.prems" show ?thesis
      unfolding unfold by simp
  next
    case False
    then have "nat (sheet_columns sheet) \<le> nat col" by simp
    with False show ?thesis by simp
  qed
qed

lemma rows_loop_eq:
  "0 \<le> row \<Longrightarrow>
   rows_loop sheet row acc
     = acc @ concat (map (\<lambda>r. map (\<lambda>k. cell_css sheet (int r) (int k)) [0 ..< nat (sheet_columns sheet)])
                      [nat row ..< nat (sheet_rows sheet)])"
proof (induction sheet row acc rule: rows_loop.induct)
  case (1 sheet row acc)
  show ?case
  proof (cases "row < sheet_rows sheet")
    case True
    with "1.prems" have lt: "nat row < nat (sheet_rows sheet)" by simp
    have "rows_loop sheet row acc = rows_loop sheet (row + 1) (cols_loop sheet row 0 acc)"
      using True by simp
    also have "\<dots> = cols_loop sheet row 0 acc
                 @ concat (map (\<lambda>r. map (\<lambda>k. cell_css sheet (int r) (int k)) [0 ..< nat (sheet_columns sheet)])
                      [nat (row + 1) ..< nat (sheet_rows sheet)])"
      using "1.IH"[OF True] "1.prems" by simp
    also have "nat (row + 1) = Suc (nat row)" using "1.prems" by simp
    finally have step: "rows_loop sheet row acc = cols_loop sheet row 0 acc
                 @ concat (map (\<lambda>r. map (\<lambda>k. cell_css sheet (int r) (int k)) [0 ..< nat (sheet_columns sheet)])
                      [Suc (nat row) ..< nat (sheet_rows sheet)])" .
    have unfold: "[nat row ..< nat (sheet_rows sheet)] = nat row # [Suc (nat row) ..< nat (sheet_rows sheet)]"
      by (rule upt_conv_Cons[OF lt])
    have "cols_loop sheet row 0 acc
            = acc @ map (\<lambda>k. cell_css sheet row (int k)) [0 ..< nat (sheet_columns sheet)]"
      using cols_loop_eq[of 0 sheet row acc] by simp
    with step "1.prems" show ?thesis
      unfolding unfold by simp
  next
    case False
    then have "nat (sheet_rows sheet) \<le> nat row" by simp
    with False show ?thesis by simp
  qed
qed

lemma grid_length:
  "length (concat (map (\<lambda>r. map (f r) [0 ..< c]) [0 ..< n])) = n * c"
  by (induction n) simp_all

lemma grid_nth:
  "i < n \<Longrightarrow> j < c \<Longrightarrow> concat (map (\<lambda>r. map (f r) [0 ..< c]) [0 ..< n]) ! (i * c + j) = f i j"
proof (induction n)
  case 0
  then show ?case by simp
next
  case (Suc n)
  let ?g = "\<lambda>m. concat (map (\<lambda>r. map (f r) [0 ..< c]) [0 ..< m])"
  have split: "?g (Suc n) = ?g n @ map (f n) [0 ..< c]" by simp
  show ?case
  proof (cases "i < n")
    case True
    then have "Suc i \<le> n" by simp
    then have "Suc i * c \<le> n * c" by (rule mult_le_mono1)
    with Suc.prems(2) have "i * c + j < n * c" by simp
    then have "?g (Suc n) ! (i * c + j) = ?g n ! (i * c + j)"
      unfolding split by (simp add: nth_append grid_length)
    with Suc.IH[OF True Suc.prems(2)] show ?thesis by simp
  next
    case False
    with Suc.prems(1) have "i = n" by simp
    then have "?g (Suc n) ! (i * c + j) = map (f n) [0 ..< c] ! j"
      unfolding split by (simp add: nth_append grid_length)
    with Suc.prems(2) \<open>i = n\<close> show ?thesis by simp
  qed
qed

lemma createSpriteCells_eq:
  "createSpriteCells sheet
     = concat (map (\<lambda>r. map (\<lambda>k. cell_css sheet (int r) (int k)) [0 ..< nat (sheet_columns sheet)])
                 [0 ..< nat (sheet_rows sheet)])"
  using rows_loop_eq[of 0 sheet "[]"] by (simp add: createSpriteCells_def)

lemma createSpriteCells_length:
  assumes "0 \<le> sheet_columns sheet" and "0 \<le> sheet_rows sheet"
  shows "length (createSpriteCells sheet) = nat (sheet_columns sheet * sheet_rows sheet)"
proof -
  have "length (createSpriteCells sheet) = nat (sheet_rows sheet) * nat (sheet_columns sheet)"
    unfolding createSpriteCells_eq by (rule grid_length)
  also have "\<dots> = nat (sheet_rows sheet * sheet_columns sheet)"
    using assms by (simp add: nat_mult_distrib)
  finally show ?thesis by (simp add: mult.commute)
qed

lemma createSpriteCells_nth:
  assumes "0 \<le> row" "row < sheet_rows sheet" "0 \<le> col" "col < sheet_columns sheet"
  shows "createSpriteCells sheet ! nat (row * sheet_columns sheet + col) = cell_css sheet row col"
proof -
  have idx: "nat (row * sheet_columns sheet + col) = nat row * nat (sheet_columns sheet) + nat col"
    using assms by (simp add: nat_add_distrib nat_mult_distrib)
  have lt: "nat row < nat (sheet_rows sheet)" "nat col < nat (sheet_columns sheet)"
    using assms by simp_all
  have "createSpriteCells sheet ! (nat row * nat (sheet_columns sheet) + nat col)
          = cell_css sheet (int (nat row)) (int (nat col))"
    unfolding createSpriteCells_eq by (rule grid_nth[OF lt])
  with assms idx show ?thesis by simp
qed

lemma final_cell_nonzero: "d \<noteq> 0 \<Longrightarrow> final_cell a b d \<noteq> 0"
  by (auto simp: final_cell_def truthy_num_def split: option.splits)

lemma String_int_zero: "String_int 0 = ''0''"
  by (simp add: String_int_def digit_char_def)

text \<open>
  Claim C7 says that explicit \<open>columns\<close>/\<open>rows\<close> win outright over the computed grid. The
  source writes \<open>columns || Math.floor(...)\<close>, so an explicit 0 is taken as absent: with
  \<open>columns: 0\<close> on a 128 by 64 image and a 32 by 32 sprite the claim has 0 columns and a null
  result; the source inserts the sheet \<open>main\<close> with the 4 computed columns.
\<close>

theorem addSheet_zero_columns_ignored:
  "so_columns zero_columns = Some 0
   \<and> map_option fst (addSheet demo_created ''/hero.png'' zero_columns ''generated'' (Some (128, 64)))
       = Some (Some ''main'')
   \<and> map_option sheet_columns
        (added_sheet (addSheet demo_created ''/hero.png'' zero_columns ''generated'' (Some (128, 64))))
       = Some 4"
  by code_simp

text \<open>
  Claim C7, as amended: \<open>addSheet\<close> takes \<open>columns\<close> (and likewise \<open>rows\<close>) from the options
  when it is supplied and not 0, and otherwise computes \<open>floor(imageWidth / cellWidth)\<close>
  (\<open>floor(imageHeight / cellHeight)\<close>); when the resulting columns or rows is not positive it
  returns null and leaves the sprite as it was; otherwise the inserted sheet has
  \<open>columns * rows\<close> cells in row-major order, the cell of (row, col) being the descriptor of
  the URL with the offset \<open>(-col * cellWidth, -row * cellHeight)\<close>, and frame 0 the top-left
  cell. (The sprite's own size is not 0, as \<open>createSprite\<close> guarantees.)
\<close>

theorem addSheet_grid:
  fixes s :: Sprite and opts :: SheetOptions and imageWidth imageHeight :: int
  defines "cellW \<equiv> final_cell (so_cellSize opts) (so_cellWidth opts) (width s)"
    and "cellH \<equiv> final_cell (so_cellSize opts) (so_cellHeight opts) (height s)"
  defines "c \<equiv> (if truthy_num (so_columns opts) then the (so_columns opts) else imageWidth div cellW)"
    and "r \<equiv> (if truthy_num (so_rows opts) then the (so_rows opts) else imageHeight div cellH)"
  assumes "width s \<noteq> 0" and "height s \<noteq> 0"
  shows "(c \<le> 0 \<or> r \<le> 0 \<longrightarrow>
            addSheet s url opts generated (Some (imageWidth, imageHeight)) = Some (None, s))
       \<and> (0 < c \<and> 0 < r \<longrightarrow>
            (\<exists>s' sheet.
               addSheet s url opts generated (Some (imageWidth, imageHeight))
                 = Some (Some (case so_id opts of None \<Rightarrow> generated | Some i \<Rightarrow> i), s')
               \<and> added_sheet (addSheet s url opts generated (Some (imageWidth, imageHeight))) = Some sheet
               \<and> sheet_columns sheet = c \<and> sheet_rows sheet = r
               \<and> sheet_width sheet = cellW \<and> sheet_height sheet = cellH
               \<and> length (sheet_cells sheet) = nat (c * r)
               \<and> (\<forall>row col. 0 \<le> row \<and> row < r \<and> 0 \<le> col \<and> col < c \<longrightarrow>
                     sheet_cells sheet ! nat (row * c + col)
                       = css_at url (- (col * cellW)) (- (row * cellH)))
               \<and> sheet_cells sheet ! 0 = css_at url 0 0))"
proof -
  have nz: "cellW \<noteq> 0" "cellH \<noteq> 0"
    using assms by (simp_all add: final_cell_nonzero)
  have gc: "grid_count (so_columns opts) imageWidth cellW = Some c"
           "grid_count (so_rows opts) imageHeight cellH = Some r"
    using nz by (auto simp: grid_count_def c_def r_def truthy_num_def split: option.splits)
  let ?base = "\<lparr>sheet_spritesheet = url, sheet_columns = c, sheet_rows = r, sheet_cells = [],
                   sheet_width = cellW, sheet_height = cellH\<rparr>"
  let ?full = "?base\<lparr>sheet_cells := createSpriteCells ?base\<rparr>"
  let ?ident = "case so_id opts of None \<Rightarrow> generated | Some i \<Rightarrow> i"
  show ?thesis
  proof (intro conjI impI)
    assume "c \<le> 0 \<or> r \<le> 0"
    with gc show "addSheet s url opts generated (Some (imageWidth, imageHeight)) = Some (None, s)"
      by (simp add: addSheet_def Let_def cellW_def[symmetric] cellH_def[symmetric])
  next
    assume pos: "0 < c \<and> 0 < r"
    then have npos: "\<not> (c \<le> 0 \<or> r \<le> 0)" by simp
    obtain s' where run: "addSheet s url opts generated (Some (imageWidth, imageHeight)) = Some (Some ?ident, s')"
      and look: "map_of (spritesheets s') ?ident = Some ?full"
      using gc npos
      by (simp add: addSheet_def Let_def cellW_def[symmetric] cellH_def[symmetric] update_conv')
    have added: "added_sheet (addSheet s url opts generated (Some (imageWidth, imageHeight))) = Some ?full"
      using run look by (simp add: added_sheet_def)
    have len: "length (sheet_cells ?full) = nat (c * r)"
      using pos createSpriteCells_length[of ?base] by simp
    have cells: "\<forall>row col. 0 \<le> row \<and> row < r \<and> 0 \<le> col \<and> col < c \<longrightarrow>
                     sheet_cells ?full ! nat (row * c + col)
                       = css_at url (- (col * cellW)) (- (row * cellH))"
    proof (intro allI impI)
      fix row col assume "0 \<le> row \<and> row < r \<and> 0 \<le> col \<and> col < c"
      then show "sheet_cells ?full ! nat (row * c + col) = css_at url (- (col * cellW)) (- (row * cellH))"
        using createSpriteCells_nth[of row ?base col]
        by (simp add: cell_css_def css_at_def Let_def)
    qed
    have first: "sheet_cells ?full ! 0 = css_at url 0 0"
      using cells[rule_format, of 0 0] pos by simp
    from run added len cells first show "\<exists>s' sheet.
               addSheet s url opts generated (Some (imageWidth, imageHeight))
                 = Some (Some ?ident, s')
               \<and> added_sheet (addSheet s url opts generated (Some (imageWidth, imageHeight))) = Some sheet
               \<and> sheet_columns sheet = c \<and> sheet_rows sheet = r
               \<and> sheet_width sheet = cellW \<and> sheet_height sheet = cellH
               \<and> length (sheet_cells sheet) = nat (c * r)
               \<and> (\<forall>row col. 0 \<le> row \<and> row < r \<and> 0 \<le> col \<and> col < c \<longrightarrow>
                     sheet_cells sheet ! nat (row * c + col)
                       = css_at url (- (col * cellW)) (- (row * cellH)))
               \<and> sheet_cells sheet ! 0 = css_at url 0 0"
      by (intro exI[of _ s'] exI[of _ ?full]) simp
  qed
qed

theorem addSheet_grid_witness:
  "width demo_created \<noteq> 0 \<and> height demo_created \<noteq> 0
   \<and> addSheet demo_created ''/hero.png'' (sheet_options ''main'') ''generated'' (Some (16, 16))
       = Some (None, demo_created)
   \<and> (\<exists>sheet. added_sheet (addSheet demo_created ''/hero.png'' (sheet_options ''main'')
                   ''generated'' (Some (64, 32))) = Some sheet
         \<and> sheet_columns sheet = 2 \<and> sheet_rows sheet = 1
         \<and> length (sheet_cells sheet) = 2
         \<and> sheet_cells sheet ! 1 = css_at ''/hero.png'' (- 32) 0
         \<and> sheet_cells sheet ! 0 = css_at ''/hero.png'' 0 0)"
proof -
  have dims: "width demo_created = 32" "height demo_created = 32"
    by code_simp+
  have cell: "final_cell (so_cellSize (sheet_options ''main'')) (so_cellWidth (sheet_options ''main'')) 32 = 32"
             "final_cell (so_cellSize (sheet_options ''main'')) (so_cellHeight (sheet_options ''main'')) 32 = 32"
             "truthy_num (so_columns (sheet_options ''main'')) = False"
             "truthy_num (so_rows (sheet_options ''main'')) = False"
    by code_simp+
  have nz: "width demo_created \<noteq> 0" "height demo_created \<noteq> 0"
    by (simp_all add: dims)
  note small = addSheet_grid[OF nz, where opts = "sheet_options ''main''" and imageWidth = 16
      and imageHeight = 16 and url = "''/hero.png''" and generated = "''generated''"]
  note big = addSheet_grid[OF nz, where opts = "sheet_options ''main''" and imageWidth = 64
      and imageHeight = 32 and url = "''/hero.png''" and generated = "''generated''"]
  from small have a: "addSheet demo_created ''/hero.png'' (sheet_options ''main'') ''generated'' (Some (16, 16))
       = Some (None, demo_created)"
    by (simp add: dims cell)
  from big obtain sheet where
    s: "added_sheet (addSheet demo_created ''/hero.png'' (sheet_options ''main'')
                   ''generated'' (Some (64, 32))) = Some sheet"
       "sheet_columns sheet = 2" "sheet_rows sheet = 1" "length (sheet_cells sheet) = 2"
       "sheet_cells sheet ! 0 = css_at ''/hero.png'' 0 0"
    and g: "\<forall>row col. 0 \<le> row \<and> row < 1 \<and> 0 \<le> col \<and> col < 2 \<longrightarrow>
                     sheet_cells sheet ! nat (row * 2 + col)
                       = css_at ''/hero.png'' (- (col * 32)) (- (row * 32))"
    by (auto simp: dims cell)
  from g[rule_format, of 0 1] have "sheet_cells sheet ! 1 = css_at ''/hero.png'' (- 32) 0"
    by simp
  with s a nz show ?thesis by blast
qed

section \<open>Registering an animation\<close>

lemma frame_range_small:
  assumes "e - st + 1 \<le> 4294967295"
  shows "\<exists>fr. frame_range st e = Inr fr \<and> set fr = {st..e}"
proof -
  have "(\<lambda>i. st + int i) ` {0 ..< nat (e - st + 1)} = {st..e}"
  proof (rule set_eqI)
    fix x
    show "x \<in> (\<lambda>i. st + int i) ` {0 ..< nat (e - st + 1)} \<longleftrightarrow> x \<in> {st..e}"
    proof
      assume "x \<in> (\<lambda>i. st + int i) ` {0 ..< nat (e - st + 1)}"
      then show "x \<in> {st..e}" by auto
    next
      assume a: "x \<in> {st..e}"
      then have "nat (x - st) \<in> {0 ..< nat (e - st + 1)}" by auto
      moreover from a have "x = st + int (nat (x - st))" by auto
      ultimately show "x \<in> (\<lambda>i. st + int i) ` {0 ..< nat (e - st + 1)}" by (rule rev_image_eqI)
    qed
  qed
  with assms show ?thesis by (simp add: frame_range_def Let_def)
qed

lemma frame_range_long: "4294967295 < e - st + 1 \<Longrightarrow> frame_range st e = Inl RangeError"
  by (simp add: frame_range_def Let_def)

lemma animation_frames_small:
  assumes "ao_frames a \<noteq> None \<or> range_length a < 4294967296"
  shows "\<exists>x. animation_frames a = Inr x \<and> (x = None \<longleftrightarrow> ao_frames a = None \<and> ao_end a = None)"
proof (cases "ao_frames a")
  case (Some fs)
  then show ?thesis by (simp add: animation_frames_def)
next
  case None
  show ?thesis
  proof (cases "ao_end a")
    case no_end: None
    with None show ?thesis by (simp add: animation_frames_def)
  next
    case (Some e)
    with None assms have "e - (case ao_start a of None \<Rightarrow> 0 | Some st \<Rightarrow> st) + 1 \<le> 4294967295"
      by (simp add: range_length_def)
    from frame_range_small[OF this] None Some show ?thesis
      by (auto simp: animation_frames_def)
  qed
qed

lemma filter_invalid_iff:
  "length (filter (\<lambda>frame. frame < 0 \<or> frame > int (length (sheet_cells sheet)) - 1) fs) > 0
     \<longleftrightarrow> out_of_range sheet fs"
  by (auto simp: out_of_range_def filter_empty_conv)

lemma addAnimation_outcome:
  assumes small: "ao_frames a \<noteq> None \<or> range_length a < 4294967296"
  shows "(add_fails s a \<and> addAnimation s a = Inr (False, s))
   \<or> (\<not> add_fails s a
       \<and> (\<exists>fs. animation_frames a = Inr (Some fs)
             \<and> addAnimation s a
                 = Inr (True, s\<lparr>animations := animations s @ [new_animation a fs]\<rparr>)))"
proof (cases "find_idx (\<lambda>anim. anim_name anim = ao_name a) (animations s) = None")
  case False
  then show ?thesis by (simp add: addAnimation_def add_fails_def Let_def)
next
  case fresh: True
  from animation_frames_small[OF small] obtain x where
    x: "animation_frames a = Inr x" "x = None \<longleftrightarrow> ao_frames a = None \<and> ao_end a = None"
    by blast
  show ?thesis
  proof (cases x)
    case None
    with fresh x show ?thesis by (simp add: addAnimation_def add_fails_def Let_def)
  next
    case (Some fs)
    with x have fr: "animation_frames a = Inr (Some fs)"
      and given: "\<not> (ao_frames a = None \<and> ao_end a = None)"
      by simp_all
    show ?thesis
    proof (cases "target_sheet s (ao_spritesheet a)")
      case None
      with fresh fr show ?thesis by (simp add: addAnimation_def add_fails_def Let_def)
    next
      case sh: (Some sheet)
      show ?thesis
      proof (cases "out_of_range sheet fs")
        case True
        with fresh fr sh have "addAnimation s a = Inr (False, s)"
          using filter_invalid_iff[of sheet fs]
          by (simp add: addAnimation_def Let_def del: length_greater_0_conv)
        moreover from True fr sh have "add_fails s a" by (simp add: add_fails_def)
        ultimately show ?thesis by simp
      next
        case False
        with fresh fr sh given have nf: "\<not> add_fails s a" by (simp add: add_fails_def)
        from False fresh fr sh
        have "addAnimation s a
                = Inr (True, s\<lparr>animations := animations s @ [new_animation a fs]\<rparr>)"
          using filter_invalid_iff[of sheet fs]
          by (simp add: addAnimation_def Let_def del: length_greater_0_conv)
        with nf fr show ?thesis by auto
      qed
    qed
  qed
qed

lemma new_animation_fields [simp]:
  "anim_stopped (new_animation a fs) = True"
  "anim_name (new_animation a fs) = ao_name a"
  "anim_frames (new_animation a fs) = fs"
  "anim_loop (new_animation a fs) = (case ao_loop a of None \<Rightarrow> False | Some l \<Rightarrow> l)"
  "anim_speed (new_animation a fs) = (case ao_speed a of None \<Rightarrow> 100 | Some sp \<Rightarrow> sp)"
  by (simp_all add: new_animation_def Let_def)

lemma target_sheet_cases:
  "(truthy_str sid \<longrightarrow> target_sheet s sid = map_of (spritesheets s) (the sid))
   \<and> (\<not> truthy_str sid \<and> truthy_str (currentSpritesheetId s) \<longrightarrow>
        target_sheet s sid = map_of (spritesheets s) (the (currentSpritesheetId s)))
   \<and> (\<not> truthy_str sid \<and> \<not> truthy_str (currentSpritesheetId s) \<longrightarrow>
        target_sheet s sid =
          (case spritesheets s of [] \<Rightarrow> None | (k, v) # rest \<Rightarrow> if k = [] then None else Some v))"
  by (auto simp: target_sheet_def getSheet_def str_or_def first_key_def truthy_str_def
           split: option.splits list.splits)

lemma animation_frames_cases:
  assumes "ao_frames a \<noteq> None \<or> range_length a < 4294967296"
  shows "(ao_frames a = Some fs \<longrightarrow> animation_frames a = Inr (Some fs))
   \<and> (ao_frames a = None \<and> ao_end a = Some e \<longrightarrow>
        (\<exists>fr. animation_frames a = Inr (Some fr)
           \<and> set fr = {(case ao_start a of None \<Rightarrow> 0 | Some st \<Rightarrow> st) .. e}))"
proof (intro conjI impI)
  assume "ao_frames a = Some fs"
  then show "animation_frames a = Inr (Some fs)" by (simp add: animation_frames_def)
next
  assume a: "ao_frames a = None \<and> ao_end a = Some e"
  with assms have "e - (case ao_start a of None \<Rightarrow> 0 | Some st \<Rightarrow> st) + 1 \<le> 4294967295"
    by (simp add: range_length_def)
  from frame_range_small[OF this] a
  show "\<exists>fr. animation_frames a = Inr (Some fr)
           \<and> set fr = {(case ao_start a of None \<Rightarrow> 0 | Some st \<Rightarrow> st) .. e}"
    by (auto simp: animation_frames_def)
qed

text \<open>Outside that bound: a new name with no frames list and a range of \<open>2^32\<close> frames or more
  makes \<open>Array.from\<close> throw, and the exception leaves \<open>addAnimation\<close>; nothing was changed
  before it. A name that exists is refused before the range is built.\<close>

lemma addAnimation_long_range:
  assumes "find_idx (\<lambda>anim. anim_name anim = ao_name a) (animations s) = None"
    and "ao_frames a = None" and "4294967295 < range_length a"
  shows "addAnimation s a = Inl RangeError"
proof -
  from assms(3) obtain e where e: "ao_end a = Some e"
    by (cases "ao_end a") (simp_all add: range_length_def)
  with assms(3) have "4294967295 < e - (case ao_start a of None \<Rightarrow> 0 | Some st \<Rightarrow> st) + 1"
    by (simp add: range_length_def)
  from frame_range_long[OF this] e assms(1,2) show ?thesis
    by (simp add: addAnimation_def animation_frames_def)
qed

lemma addAnimation_existing_name:
  "find_idx (\<lambda>anim. anim_name anim = ao_name a) (animations s) \<noteq> None \<Longrightarrow>
   addAnimation s a = Inr (False, s)"
  by (simp add: addAnimation_def)

lemma addAnimation_long_range_throws:
  "addAnimation demo_sheeted (range_options (NameStr ''run'') 4294967295) = Inl RangeError
   \<and> map_sum id fst (addAnimation demo_sheeted (range_options (NameStr ''run'') 4294967294))
       = Inr False"
proof -
  have *: "find_idx (\<lambda>anim. anim_name anim = ao_name (range_options (NameStr ''run'') 4294967295))
             (animations demo_sheeted) = None"
          "ao_frames (range_options (NameStr ''run'') 4294967295) = None"
          "4294967295 < range_length (range_options (NameStr ''run'') 4294967295)"
    by code_simp+
  have small: "ao_frames (range_options (NameStr ''run'') 4294967294) \<noteq> None
               \<or> range_length (range_options (NameStr ''run'') 4294967294) < 4294967296"
    by (simp add: range_options_def range_length_def)
  have sheet: "target_sheet demo_sheeted (ao_spritesheet (range_options (NameStr ''run'') 4294967294))
                 = map_of (spritesheets demo_sheeted) ''main''"
              "map_option (length \<circ> sheet_cells) (map_of (spritesheets demo_sheeted) ''main'') = Some 2"
    by code_simp+
  then obtain sh where sh: "target_sheet demo_sheeted
                               (ao_spritesheet (range_options (NameStr ''run'') 4294967294)) = Some sh"
    and cells: "length (sheet_cells sh) = 2"
    by (cases "map_of (spritesheets demo_sheeted) ''main''") auto
  from animation_frames_cases[OF small, of "[]" 4294967294] obtain fr where
    fr: "animation_frames (range_options (NameStr ''run'') 4294967294) = Inr (Some fr)"
    and mem: "set fr = {0 .. 4294967294}"
    by (auto simp: range_options_def)
  from mem have "(2::int) \<in> set fr" by simp
  with cells have "out_of_range sh fr"
    unfolding out_of_range_def by (intro bexI[of _ 2]) simp_all
  with sh fr have "add_fails demo_sheeted (range_options (NameStr ''run'') 4294967294)"
    by (auto simp: add_fails_def)
  with addAnimation_outcome[OF small, of demo_sheeted]
  have "addAnimation demo_sheeted (range_options (NameStr ''run'') 4294967294)
          = Inr (False, demo_sheeted)"
    by auto
  with addAnimation_long_range[OF *] show ?thesis by simp
qed

text \<open>
  Claim C6 says that \<open>addAnimation\<close> returns false exactly when the name exists, or neither
  frames nor an end is supplied, or no spritesheet is resolvable from the explicit id, else the
  sprite's current sheet, or a frame lies outside the sheet. The source resolves more: an
  explicit id that is the empty string counts as absent, and without a current sheet the first
  sheet of the sprite is taken. On the sprite with the sheet \<open>main\<close>, the explicit id \<open>''\<close>
  names no sheet and the call returns true; with the current sheet id unset and no explicit id
  the rule of the claim resolves nothing and the call returns true.
\<close>

theorem addAnimation_resolves_beyond_claim:
  "claimed_sheet demo_sheeted (Some []) = None
   \<and> map_sum id fst (addAnimation demo_sheeted (frames_options (NameStr ''x'') [0] (Some [])))
       = Inr True
   \<and> claimed_sheet (demo_sheeted\<lparr>currentSpritesheetId := None\<rparr>) None = None
   \<and> map_sum id fst (addAnimation (demo_sheeted\<lparr>currentSpritesheetId := None\<rparr>)
                        (frames_options (NameStr ''x'') [0] None)) = Inr True"
  by code_simp

text \<open>
  Claim C6, as amended: for a call that gives a frames list, or an end bound that asks for
  fewer than \<open>2^32\<close> frames, \<open>addAnimation\<close> returns, and it returns false and leaves the sprite
  unchanged exactly when the name already exists on the sprite, or neither a frames list nor
  an end bound is supplied, or no spritesheet is resolved, or a resulting frame index lies
  outside \<open>[0, sheet.cells.length - 1]\<close>; the sheet is the one of the explicit id when that is
  not empty, else the one of the sprite's current sheet id when that is set and not empty, else
  the first sheet of the sprite when its id is not empty; the frames are the given list, else
  \<open>start..end\<close>. On success it appends the animation, with \<open>stopped = true\<close>.
\<close>

theorem addAnimation_result:
  assumes "ao_frames a \<noteq> None \<or> range_length a < 4294967296"
  shows "(\<exists>ok s'. addAnimation s a = Inr (ok, s')
            \<and> (\<not> ok \<longleftrightarrow>
                 (find_idx (\<lambda>anim. anim_name anim = ao_name a) (animations s) \<noteq> None
                  \<or> (ao_frames a = None \<and> ao_end a = None)
                  \<or> target_sheet s (ao_spritesheet a) = None
                  \<or> (\<exists>sheet fs. target_sheet s (ao_spritesheet a) = Some sheet
                        \<and> animation_frames a = Inr (Some fs) \<and> out_of_range sheet fs)))
            \<and> (\<not> ok \<longrightarrow> s' = s)
            \<and> (ok \<longrightarrow>
                 (\<exists>an. animations s' = animations s @ [an]
                    \<and> anim_stopped an \<and> anim_name an = ao_name a
                    \<and> animation_frames a = Inr (Some (anim_frames an)))))
   \<and> (truthy_str sid \<longrightarrow> target_sheet s sid = map_of (spritesheets s) (the sid))
   \<and> (\<not> truthy_str sid \<and> truthy_str (currentSpritesheetId s) \<longrightarrow>
        target_sheet s sid = map_of (spritesheets s) (the (currentSpritesheetId s)))
   \<and> (\<not> truthy_str sid \<and> \<not> truthy_str (currentSpritesheetId s) \<longrightarrow>
        target_sheet s sid =
          (case spritesheets s of [] \<Rightarrow> None | (k, v) # rest \<Rightarrow> if k = [] then None else Some v))
   \<and> (ao_frames a = Some fs \<longrightarrow> animation_frames a = Inr (Some fs))
   \<and> (ao_frames a = None \<and> ao_end a = Some e \<longrightarrow>
        (\<exists>fr. animation_frames a = Inr (Some fr)
           \<and> set fr = {(case ao_start a of None \<Rightarrow> 0 | Some st \<Rightarrow> st) .. e}))"
proof -
  have res: "\<exists>ok s'. addAnimation s a = Inr (ok, s')
            \<and> (\<not> ok \<longleftrightarrow> add_fails s a)
            \<and> (\<not> ok \<longrightarrow> s' = s)
            \<and> (ok \<longrightarrow>
                 (\<exists>an. animations s' = animations s @ [an]
                    \<and> anim_stopped an \<and> anim_name an = ao_name a
                    \<and> animation_frames a = Inr (Some (anim_frames an))))"
  proof (cases "add_fails s a")
    case True
    with addAnimation_outcome[OF assms, of s] have "addAnimation s a = Inr (False, s)" by auto
    with True show ?thesis by (intro exI[of _ False] exI[of _ s]) simp
  next
    case False
    with addAnimation_outcome[OF assms, of s] obtain fs where
      fs: "animation_frames a = Inr (Some fs)"
      "addAnimation s a = Inr (True, s\<lparr>animations := animations s @ [new_animation a fs]\<rparr>)"
      by auto
    have "animations (s\<lparr>animations := animations s @ [new_animation a fs]\<rparr>)
            = animations s @ [new_animation a fs]
          \<and> anim_stopped (new_animation a fs) \<and> anim_name (new_animation a fs) = ao_name a
          \<and> animation_frames a = Inr (Some (anim_frames (new_animation a fs)))"
      using fs(1) by simp
    with False fs(2) show ?thesis
      by (intro exI[of _ True] exI[of _ "s\<lparr>animations := animations s @ [new_animation a fs]\<rparr>"])
         simp
  qed
  from res target_sheet_cases[of sid s] animation_frames_cases[OF assms, of fs e]
  show ?thesis unfolding add_fails_def by blast
qed

theorem addAnimation_result_witness:
  "\<not> truthy_str None \<and> truthy_str (currentSpritesheetId demo_sheeted)
   \<and> target_sheet demo_sheeted None = map_of (spritesheets demo_sheeted) ''main''
   \<and> truthy_str (Some ''main'')
   \<and> target_sheet demo_sheeted (Some ''main'') = map_of (spritesheets demo_sheeted) ''main''
   \<and> ao_frames (range_options (NameStr ''walk'') 2) = None
   \<and> ao_end (range_options (NameStr ''walk'') 2) = Some 2
   \<and> range_length (range_options (NameStr ''walk'') 2) = 3
   \<and> (\<exists>fr. animation_frames (range_options (NameStr ''walk'') 2) = Inr (Some fr)
         \<and> set fr = {0..2})
   \<and> ao_frames (frames_options (NameStr ''x'') [1, 0] None) = Some [1, 0]
   \<and> animation_frames (frames_options (NameStr ''x'') [1, 0] None) = Inr (Some [1, 0])
   \<and> out_of_range (the (map_of (spritesheets demo_sheeted) ''main'')) [0, 1, 2]
   \<and> addAnimation demo_sheeted (range_options (NameStr ''walk'') 2) = Inr (False, demo_sheeted)
   \<and> (\<exists>s' an. addAnimation demo_sheeted (range_options (NameStr ''walk'') 1) = Inr (True, s')
         \<and> animations s' = animations demo_sheeted @ [an]
         \<and> anim_stopped an \<and> anim_name an = NameStr ''walk'' \<and> anim_frames an = [0, 1])"
proof -
  have len: "range_length (range_options (NameStr ''walk'') 2) = 3"
            "range_length (range_options (NameStr ''walk'') 1) = 2"
    by (simp_all add: range_options_def range_length_def)
  then have small2: "ao_frames (range_options (NameStr ''walk'') 2) \<noteq> None
                     \<or> range_length (range_options (NameStr ''walk'') 2) < 4294967296"
    and small1: "ao_frames (range_options (NameStr ''walk'') 1) \<noteq> None
                     \<or> range_length (range_options (NameStr ''walk'') 1) < 4294967296"
    by simp_all
  have listed: "ao_frames (frames_options (NameStr ''x'') [1, 0] None) \<noteq> None
                \<or> range_length (frames_options (NameStr ''x'') [1, 0] None) < 4294967296"
    by (simp add: frames_options_def)
  note bad = addAnimation_result[OF small2, where s = demo_sheeted and sid = None and e = 2]
  note good = addAnimation_result[OF small1, where s = demo_sheeted and sid = "Some ''main''"]
  note given = addAnimation_result[OF listed, where s = demo_sheeted and fs = "[1, 0]"]
  \<comment> \<open>the resolution of the sheet\<close>
  have cur: "\<not> truthy_str None" "truthy_str (currentSpritesheetId demo_sheeted)"
            "the (currentSpritesheetId demo_sheeted) = ''main''"
            "truthy_str (Some ''main'')"
            "map_of (spritesheets demo_sheeted) ''main'' \<noteq> None"
    by code_simp+
  from bad[THEN conjunct2, THEN conjunct2, THEN conjunct1] cur
  have r1: "target_sheet demo_sheeted None = map_of (spritesheets demo_sheeted) ''main''"
    by simp
  from good[THEN conjunct2, THEN conjunct1] cur
  have r2: "target_sheet demo_sheeted (Some ''main'') = map_of (spritesheets demo_sheeted) ''main''"
    by simp
  \<comment> \<open>the frames\<close>
  have opt: "ao_frames (range_options (NameStr ''walk'') 2) = None"
            "ao_end (range_options (NameStr ''walk'') 2) = Some 2"
            "ao_start (range_options (NameStr ''walk'') 2) = None"
            "ao_spritesheet (range_options (NameStr ''walk'') 2) = None"
            "ao_name (range_options (NameStr ''walk'') 1) = NameStr ''walk''"
            "ao_frames (frames_options (NameStr ''x'') [1, 0] None) = Some [1, 0]"
    by code_simp+
  from bad[THEN conjunct2, THEN conjunct2, THEN conjunct2, THEN conjunct2, THEN conjunct2] opt
  have r3: "\<exists>fr. animation_frames (range_options (NameStr ''walk'') 2) = Inr (Some fr)
              \<and> set fr = {0..2}"
    by simp
  from given[THEN conjunct2, THEN conjunct2, THEN conjunct2, THEN conjunct2, THEN conjunct1] opt
  have r4: "animation_frames (frames_options (NameStr ''x'') [1, 0] None) = Inr (Some [1, 0])"
    by simp
  \<comment> \<open>a frame beyond the sheet: false, and nothing changed\<close>
  have fr: "animation_frames (range_options (NameStr ''walk'') 2) = Inr (Some [0, 1, 2])"
           "out_of_range (the (map_of (spritesheets demo_sheeted) ''main'')) [0, 1, 2]"
           "animation_frames (range_options (NameStr ''walk'') 1) = Inr (Some [0, 1])"
    by code_simp+
  from cur obtain sheet where sheet: "map_of (spritesheets demo_sheeted) ''main'' = Some sheet"
    by auto
  with r1 fr opt
  have reason: "\<exists>sheet fs. target_sheet demo_sheeted (ao_spritesheet (range_options (NameStr ''walk'') 2))
                 = Some sheet
             \<and> animation_frames (range_options (NameStr ''walk'') 2) = Inr (Some fs)
             \<and> out_of_range sheet fs"
    by simp
  from bad[THEN conjunct1] obtain ok s' where
    b: "addAnimation demo_sheeted (range_options (NameStr ''walk'') 2) = Inr (ok, s')"
       "\<not> ok \<longleftrightarrow>
          (find_idx (\<lambda>anim. anim_name anim = ao_name (range_options (NameStr ''walk'') 2))
             (animations demo_sheeted) \<noteq> None
           \<or> (ao_frames (range_options (NameStr ''walk'') 2) = None
               \<and> ao_end (range_options (NameStr ''walk'') 2) = None)
           \<or> target_sheet demo_sheeted (ao_spritesheet (range_options (NameStr ''walk'') 2)) = None
           \<or> (\<exists>sheet fs. target_sheet demo_sheeted (ao_spritesheet (range_options (NameStr ''walk'') 2))
                 = Some sheet
                 \<and> animation_frames (range_options (NameStr ''walk'') 2) = Inr (Some fs)
                 \<and> out_of_range sheet fs))"
       "\<not> ok \<longrightarrow> s' = demo_sheeted"
    by (elim exE conjE)
  from b(2) reason have "\<not> ok" by blast
  with b have f: "addAnimation demo_sheeted (range_options (NameStr ''walk'') 2)
                    = Inr (False, demo_sheeted)"
    by simp
  \<comment> \<open>frames within the sheet: true, and the animation appended\<close>
  have t: "map_sum id fst (addAnimation demo_sheeted (range_options (NameStr ''walk'') 1)) = Inr True"
    by code_simp
  from good[THEN conjunct1] obtain ok' s'' where
    g: "addAnimation demo_sheeted (range_options (NameStr ''walk'') 1) = Inr (ok', s'')"
       "ok' \<longrightarrow>
          (\<exists>an. animations s'' = animations demo_sheeted @ [an]
             \<and> anim_stopped an \<and> anim_name an = ao_name (range_options (NameStr ''walk'') 1)
             \<and> animation_frames (range_options (NameStr ''walk'') 1) = Inr (Some (anim_frames an)))"
    by (elim exE conjE)
  from g(1) t have ok': "ok'" by simp
  with g(2) obtain an where
    "animations s'' = animations demo_sheeted @ [an]"
    "anim_stopped an" "anim_name an = ao_name (range_options (NameStr ''walk'') 1)"
    "animation_frames (range_options (NameStr ''walk'') 1) = Inr (Some (anim_frames an))"
    by (elim impE exE conjE)
  with fr opt g(1) ok'
  have a: "\<exists>s' an. addAnimation demo_sheeted (range_options (NameStr ''walk'') 1) = Inr (True, s')
         \<and> animations s' = animations demo_sheeted @ [an]
         \<and> anim_stopped an \<and> anim_name an = NameStr ''walk'' \<and> anim_frames an = [0, 1]"
    by (intro exI[of _ s''] exI[of _ an]) simp
  show ?thesis
    using cur(1,2) r1 cur(4) r2 opt(1,2) len(1) r3 opt(6) r4 fr(2) f a by (intro conjI)
qed

section \<open>Playing an animation\<close>






lemma set_cursor_shown [simp]:
  "currentFrame (sprite (set_cursor (show_frame w sh f) h k)) = Some f"
  "elem_background (element (sprite (set_cursor (show_frame w sh f) h k))) = Some (sheet_cells sh ! nat f)"
  by simp_all












end
